theory Spec2Isabelle
  imports Complex_Main "HOL-Library.Multiset"
begin

section \<open>JSON values and HTTP responses\<close>

text \<open>
  The handlers answer with \<^verbatim>\<open>res.status(c).json(b)\<close>; \<^verbatim>\<open>res.json(b)\<close> alone answers
  with status 200. A response is the status with the JSON body. JavaScript numbers that
  travel in JSON are finite, they are modelled as reals. A timestamp is its count of
  milliseconds. The French messages of the source are written without their accents and
  without the pictograms.
\<close>

datatype json =
    JNull
  | JBool bool
  | JNum real
  | JStr string
  | JArr "json list"
  | JObj "(string \<times> json) list"

record response =
  status :: nat
  body :: json

definition json_field :: "string \<Rightarrow> json \<Rightarrow> json option" where
  "json_field k j = (case j of JObj kvs \<Rightarrow> map_of kvs k | _ \<Rightarrow> None)"

definition res_status_json :: "nat \<Rightarrow> json \<Rightarrow> response" where
  "res_status_json c b = \<lparr>status = c, body = b\<rparr>"

definition res_json :: "json \<Rightarrow> response" where
  "res_json b = res_status_json 200 b"

section \<open>JavaScript helpers\<close>

text \<open>
  \<^verbatim>\<open>a || d\<close> yields \<^verbatim>\<open>d\<close> when \<^verbatim>\<open>a\<close> is falsy: undefined, the empty string, or the
  number 0. A string is a list of code units below 256; in that range
  \<^verbatim>\<open>String.prototype.trim\<close> strips TAB, LF, VT, FF, CR, SPACE and NBSP from both ends.
\<close>

definition or_str :: "string option \<Rightarrow> string \<Rightarrow> string" where
  "or_str v d = (case v of None \<Rightarrow> d | Some s \<Rightarrow> if s = [] then d else s)"

definition or_num :: "real option \<Rightarrow> real \<Rightarrow> real" where
  "or_num v d = (case v of None \<Rightarrow> d | Some x \<Rightarrow> if x = 0 then d else x)"

definition js_whitespace :: "char \<Rightarrow> bool" where
  "js_whitespace c \<longleftrightarrow>
     c \<in> set [CHR 0x09, CHR 0x0A, CHR 0x0B, CHR 0x0C, CHR 0x0D, CHR 0x20, CHR 0xA0]"

definition trim :: "string \<Rightarrow> string" where
  "trim s = rev (dropWhile js_whitespace (rev (dropWhile js_whitespace s)))"

section \<open>The Favorite model (models/Favorite.js)\<close>

text \<open>
  A stored document of the collection. \<^verbatim>\<open>_id\<close> is \<open>oid\<close>; \<open>createdAt\<close> and
  \<open>updatedAt\<close> come from the schema option \<^verbatim>\<open>timestamps: true\<close>; \<open>addedAt\<close> is a field
  of its own with default \<^verbatim>\<open>Date.now\<close>. The \<^verbatim>\<open>metadata\<close> map (default empty, never
  written by the controllers) is left out.
\<close>

record favorite =
  oid :: string
  userId :: string
  productId :: string
  productName :: string
  brandName :: string
  price :: real
  originalPrice :: "real option"
  ingredients :: string
  similarity :: real
  category :: string
  productType :: string
  source :: string
  addedAt :: nat
  fnotes :: string
  createdAt :: nat
  updatedAt :: nat

text \<open>The object handed to \<^verbatim>\<open>new Favorite({...})\<close> by the two controllers.\<close>

record favorite_args =
  a_userId :: string
  a_productId :: "string option"
  a_productName :: "string option"
  a_brandName :: "string option"
  a_price :: real
  a_ingredients :: "string option"
  a_category :: "string option"
  a_similarity :: "real option"
  a_addedAt :: "nat option"
  a_source :: string

text \<open>
  What the run reads from outside while it creates a document: the fresh \<^verbatim>\<open>_id\<close>, the
  fresh product id of \<^verbatim>\<open>new mongoose.Types.ObjectId().toString()\<close>, the clock when the
  document is constructed (default of \<open>addedAt\<close>) and the clock when it is saved
  (\<open>createdAt\<close>, \<open>updatedAt\<close>).
\<close>

record env =
  fresh_oid :: string
  fresh_pid :: string
  t_new :: nat
  t_save :: nat

datatype store_error = ValidationError | DuplicateKey | CastError

definition error_code :: "store_error \<Rightarrow> nat option" where
  "error_code e =
     (case e of DuplicateKey \<Rightarrow> Some 11000 | ValidationError \<Rightarrow> None | CastError \<Rightarrow> None)"

definition opt_str :: "string option \<Rightarrow> string" where
  "opt_str v = (case v of None \<Rightarrow> [] | Some s \<Rightarrow> s)"

text \<open>
  The document built from the arguments: the \<^verbatim>\<open>trim\<close> setters of \<open>productName\<close> and
  \<open>brandName\<close> and the schema defaults are applied. A required string that is missing shows
  as the empty string, which the \<^verbatim>\<open>required\<close> validator refuses as well.
\<close>

definition Favorite_new :: "env \<Rightarrow> favorite_args \<Rightarrow> favorite" where
  "Favorite_new e a =
     \<lparr>oid = fresh_oid e,
      userId = a_userId a,
      productId = opt_str (a_productId a),
      productName = trim (opt_str (a_productName a)),
      brandName = trim (opt_str (a_brandName a)),
      price = a_price a,
      originalPrice = None,
      ingredients = (case a_ingredients a of None \<Rightarrow> [] | Some s \<Rightarrow> s),
      similarity = (case a_similarity a of None \<Rightarrow> 0 | Some x \<Rightarrow> x),
      category = (case a_category a of None \<Rightarrow> ''Unknown'' | Some s \<Rightarrow> s),
      productType = ''unknown'',
      source = a_source a,
      addedAt = (case a_addedAt a of None \<Rightarrow> t_new e | Some t \<Rightarrow> t),
      fnotes = [],
      createdAt = t_save e,
      updatedAt = t_save e\<rparr>"

text \<open>The validators the schema declares: \<^verbatim>\<open>required\<close>, \<^verbatim>\<open>min\<close>, \<^verbatim>\<open>max\<close>, \<^verbatim>\<open>enum\<close>.\<close>

definition schema_valid :: "favorite \<Rightarrow> bool" where
  "schema_valid f \<longleftrightarrow>
     productId f \<noteq> [] \<and> productName f \<noteq> [] \<and> brandName f \<noteq> [] \<and>
     0 \<le> price f \<and>
     (case originalPrice f of None \<Rightarrow> True | Some p \<Rightarrow> 0 \<le> p) \<and>
     0 \<le> similarity f \<and> similarity f \<le> 1 \<and>
     source f \<in> set [''dupe_finder'', ''scanner'', ''manual'']"

text \<open>
  The unique compound index \<^verbatim>\<open>{ userId: 1, productId: 1 }\<close>: \<open>key_taken\<close> is what makes
  an insert fail with code 11000, \<open>unique_index\<close> is the invariant the index keeps.
\<close>

definition key_taken :: "string \<Rightarrow> string \<Rightarrow> favorite list \<Rightarrow> bool" where
  "key_taken u k db = list_ex (\<lambda>f. userId f = u \<and> productId f = k) db"

definition unique_index :: "favorite list \<Rightarrow> bool" where
  "unique_index db = distinct (map (\<lambda>f. (userId f, productId f)) db)"

text \<open>\<^verbatim>\<open>doc.save()\<close> of a new document: validation first, then the insert.\<close>

definition Favorite_save :: "favorite \<Rightarrow> favorite list \<Rightarrow> store_error + favorite list" where
  "Favorite_save f db =
     (if \<not> schema_valid f then Inl ValidationError
      else if key_taken (userId f) (productId f) db then Inl DuplicateKey
      else Inr (db @ [f]))"

definition findOne :: "(favorite \<Rightarrow> bool) \<Rightarrow> favorite list \<Rightarrow> favorite option" where
  "findOne p db = find p db"

text \<open>
  \<^verbatim>\<open>_id\<close> is an ObjectId, whose string form is 24 hexadecimal digits.
  \<^verbatim>\<open>Favorite.findById(id)\<close> casts the string it is given to that type before it
  queries: for a string of another form the cast fails and the call throws a CastError.
\<close>

definition hex_digit :: "char \<Rightarrow> bool" where
  "hex_digit c \<longleftrightarrow> c \<in> set ''0123456789abcdefABCDEF''"

definition is_ObjectId :: "string \<Rightarrow> bool" where
  "is_ObjectId s \<longleftrightarrow> length s = 24 \<and> list_all hex_digit s"

definition findById :: "string \<Rightarrow> favorite list \<Rightarrow> store_error + favorite option" where
  "findById i db = (if is_ObjectId i then Inr (find (\<lambda>f. oid f = i) db) else Inl CastError)"

definition deleteOne :: "favorite \<Rightarrow> favorite list \<Rightarrow> favorite list" where
  "deleteOne f db = filter (\<lambda>g. oid g \<noteq> oid f) db"

text \<open>
  \<^verbatim>\<open>find(filter).sort({ key: -1 })\<close>: the matching documents, greatest key first.
  The store promises no order among documents with equal keys; here they stay in the
  order of the collection.
\<close>

definition sort_desc :: "(favorite \<Rightarrow> nat) \<Rightarrow> favorite list \<Rightarrow> favorite list" where
  "sort_desc key fs = sort_key (\<lambda>f. - int (key f)) fs"

definition favorite_json :: "favorite \<Rightarrow> json" where
  "favorite_json f = JObj
     [(''_id'', JStr (oid f)),
      (''userId'', JStr (userId f)),
      (''productId'', JStr (productId f)),
      (''productName'', JStr (productName f)),
      (''brandName'', JStr (brandName f)),
      (''price'', JNum (price f)),
      (''ingredients'', JStr (ingredients f)),
      (''similarity'', JNum (similarity f)),
      (''category'', JStr (category f)),
      (''productType'', JStr (productType f)),
      (''source'', JStr (source f)),
      (''addedAt'', JNum (real (addedAt f))),
      (''notes'', JStr (fnotes f)),
      (''createdAt'', JNum (real (createdAt f))),
      (''updatedAt'', JNum (real (updatedAt f)))]"

section \<open>The favorites controller behind \<^verbatim>\<open>/api/favorites\<close>\<close>

text \<open>
  \<^verbatim>\<open>req.user\<close> is what the \<^verbatim>\<open>protect\<close> middleware left there: the user without the
  password, or null. Reading \<^verbatim>\<open>req.user.id\<close> of null throws a TypeError, which every
  handler catches and answers with 500.
\<close>

record safe_user =
  uid :: string
  uname :: string
  uemail :: string

record add_body =
  product_name :: "string option"
  brand_name :: "string option"
  b_price :: "real option"
  b_ingredients :: "string option"
  b_category :: "string option"
  b_similarity :: "real option"
  product_id :: "string option"

definition msg :: "string \<Rightarrow> json" where
  "msg s = JObj [(''msg'', JStr s)]"

definition addFavorite_args :: "env \<Rightarrow> safe_user \<Rightarrow> add_body \<Rightarrow> favorite_args" where
  "addFavorite_args e u b =
     \<lparr>a_userId = uid u,
      a_productId = Some (or_str (product_id b) (fresh_pid e)),
      a_productName = Some (or_str (product_name b) ''Nom inconnu''),
      a_brandName = Some (or_str (brand_name b) ''Marque inconnue''),
      a_price = or_num (b_price b) 0,
      a_ingredients = Some (or_str (b_ingredients b) []),
      a_category = Some (or_str (b_category b) ''Skincare''),
      a_similarity = Some (or_num (b_similarity b) 0),
      a_addedAt = None,
      a_source = ''dupe_finder''\<rparr>"

text \<open>
  \<^verbatim>\<open>addFavorite\<close> has two awaited store operations. The first is the pre-check
  \<^verbatim>\<open>Favorite.findOne({ userId: req.user.id, productName: product_name })\<close>. The filter
  is cast with the schema as a document is, setters included, so the name is compared
  trimmed; a missing \<^verbatim>\<open>product_name\<close> matches no document, every stored name being a
  string. The check answers at once (\<open>Inl\<close>) or lets the handler go on to the write
  (\<open>Inr\<close>).
\<close>

definition addFavorite_check ::
    "safe_user option \<Rightarrow> add_body \<Rightarrow> favorite list \<Rightarrow> response + unit" where
  "addFavorite_check user b db =
     (case user of
        None \<Rightarrow> Inl (res_status_json 500 (msg ''Erreur serveur''))
      | Some u \<Rightarrow>
          (case findOne (\<lambda>f. userId f = uid u \<and>
                               Some (productName f) = map_option trim (product_name b)) db of
             Some existingFavorite \<Rightarrow>
               Inl (res_status_json 400 (msg ''Ce produit est deja dans vos favoris !''))
           | None \<Rightarrow> Inr ()))"

text \<open>The second is \<^verbatim>\<open>newFavorite.save()\<close>, with the \<^verbatim>\<open>catch\<close> of the handler.\<close>

definition addFavorite_write ::
    "env \<Rightarrow> safe_user option \<Rightarrow> add_body \<Rightarrow> favorite list \<Rightarrow> response \<times> favorite list" where
  "addFavorite_write e user b db =
     (case user of
        None \<Rightarrow> (res_status_json 500 (msg ''Erreur serveur''), db)
      | Some u \<Rightarrow>
          (let newFavorite = Favorite_new e (addFavorite_args e u b) in
           case Favorite_save newFavorite db of
             Inr db' \<Rightarrow> (res_status_json 201 (favorite_json newFavorite), db')
           | Inl err \<Rightarrow>
               if error_code err = Some 11000
               then (res_status_json 400 (msg ''Produit deja en favoris''), db)
               else (res_status_json 500 (msg ''Erreur serveur''), db)))"

definition addFavorite ::
    "env \<Rightarrow> safe_user option \<Rightarrow> add_body \<Rightarrow> favorite list \<Rightarrow> response \<times> favorite list" where
  "addFavorite e user b db =
     (case addFavorite_check user b db of
        Inl r \<Rightarrow> (r, db)
      | Inr _ \<Rightarrow> addFavorite_write e user b db)"

definition getMyFavorites :: "safe_user option \<Rightarrow> favorite list \<Rightarrow> response" where
  "getMyFavorites user db =
     (case user of
        None \<Rightarrow> res_status_json 500 (msg ''Erreur serveur lors du chargement des favoris'')
      | Some u \<Rightarrow>
          res_json (JArr (map favorite_json
            (sort_desc createdAt (filter (\<lambda>f. userId f = uid u) db)))))"

text \<open>
  \<^verbatim>\<open>deleteFavorite\<close> looks the favorite up by \<^verbatim>\<open>req.params.id\<close>, any string of the URL.
  When the lookup throws, the \<^verbatim>\<open>catch\<close> of the handler answers with 500.
\<close>

definition deleteFavorite ::
    "safe_user option \<Rightarrow> string \<Rightarrow> favorite list \<Rightarrow> response \<times> favorite list" where
  "deleteFavorite user i db =
     (case findById i db of
        Inl err \<Rightarrow> (res_status_json 500 (msg ''Erreur serveur''), db)
      | Inr None \<Rightarrow> (res_status_json 404 (msg ''Favori non trouve''), db)
      | Inr (Some fav) \<Rightarrow>
          (case user of
             None \<Rightarrow> (res_status_json 500 (msg ''Erreur serveur''), db)
           | Some u \<Rightarrow>
               if userId fav \<noteq> uid u
               then (res_status_json 401 (msg ''Non autorise''), db)
               else (res_json (msg ''Favori supprime''), deleteOne fav db)))"

text \<open>
  Two \<^verbatim>\<open>addFavorite\<close> calls in flight at once. Each call is suspended at its two
  awaited store operations, so a run is an interleaving of the calls' steps; the store
  executes each operation atomically.
\<close>

datatype add_state = Checking | Writing | Answered response

datatype caller = CallA | CallB

definition addFavorite_step ::
    "env \<Rightarrow> safe_user option \<Rightarrow> add_body \<Rightarrow> add_state \<times> favorite list
       \<Rightarrow> add_state \<times> favorite list" where
  "addFavorite_step e user b s =
     (case fst s of
        Checking \<Rightarrow>
          (case addFavorite_check user b (snd s) of
             Inl r \<Rightarrow> (Answered r, snd s)
           | Inr _ \<Rightarrow> (Writing, snd s))
      | Writing \<Rightarrow>
          (case addFavorite_write e user b (snd s) of (r, db') \<Rightarrow> (Answered r, db'))
      | Answered r \<Rightarrow> s)"

record add_call =
  c_env :: env
  c_user :: "safe_user option"
  c_body :: add_body

fun race :: "add_call \<Rightarrow> add_call \<Rightarrow> caller list
      \<Rightarrow> add_state \<times> add_state \<times> favorite list \<Rightarrow> add_state \<times> add_state \<times> favorite list" where
  "race ca cb [] s = s"
| "race ca cb (CallA # sched) (sa, sb, db) =
     (case addFavorite_step (c_env ca) (c_user ca) (c_body ca) (sa, db) of
        (sa', db') \<Rightarrow> race ca cb sched (sa', sb, db'))"
| "race ca cb (CallB # sched) (sa, sb, db) =
     (case addFavorite_step (c_env cb) (c_user cb) (c_body cb) (sb, db) of
        (sb', db') \<Rightarrow> race ca cb sched (sa, sb', db'))"

fun interleave :: "'a list \<Rightarrow> 'a list \<Rightarrow> 'a list list" where
  "interleave [] ys = [ys]"
| "interleave xs [] = [xs]"
| "interleave (x # xs) (y # ys) =
     map ((#) x) (interleave xs (y # ys)) @ map ((#) y) (interleave (x # xs) ys)"

text \<open>Every order in which the two steps of call A and the two steps of call B can run.\<close>

definition schedules :: "caller list list" where
  "schedules = interleave [CallA, CallA] [CallB, CallB]"

definition answered :: "add_state \<Rightarrow> nat option" where
  "answered s = (case s of Answered r \<Rightarrow> Some (status r) | _ \<Rightarrow> None)"

section \<open>The \<^verbatim>\<open>protect\<close> middleware\<close>

text \<open>
  The User model is not among the files; its fields are those the auth controller reads
  and writes: \<^verbatim>\<open>_id\<close>, \<^verbatim>\<open>name\<close>, \<^verbatim>\<open>email\<close>, \<^verbatim>\<open>password\<close>. Token verification
  (\<^verbatim>\<open>jwt.verify(token, secret)\<close>) is a parameter: it yields the \<^verbatim>\<open>id\<close> of the decoded
  payload, or nothing when it throws (bad signature, expired, malformed). The library
  throws on a missing or empty token before it looks at anything else.
\<close>

record user =
  user_id :: string
  user_name :: string
  user_email :: string
  user_password :: string

definition User_findById :: "string \<Rightarrow> user list \<Rightarrow> user option" where
  "User_findById i users = find (\<lambda>u. user_id u = i) users"

definition select_minus_password :: "user \<Rightarrow> safe_user" where
  "select_minus_password u = \<lparr>uid = user_id u, uname = user_name u, uemail = user_email u\<rparr>"

fun split_on :: "char \<Rightarrow> string \<Rightarrow> string list" where
  "split_on c [] = [[]]"
| "split_on c (x # xs) =
     (if x = c then [] # split_on c xs
      else (case split_on c xs of
              [] \<Rightarrow> [[x]]
            | w # ws \<Rightarrow> (x # w) # ws))"

definition index :: "'a list \<Rightarrow> nat \<Rightarrow> 'a option" where
  "index xs n = (if n < length xs then Some (xs ! n) else None)"

definition falsy :: "string option \<Rightarrow> bool" where
  "falsy v = (case v of None \<Rightarrow> True | Some s \<Rightarrow> s = [])"

definition verify :: "(string \<Rightarrow> string option) \<Rightarrow> string option \<Rightarrow> string option" where
  "verify jwt_verify token =
     (case token of None \<Rightarrow> None | Some t \<Rightarrow> if t = [] then None else jwt_verify t)"

definition message :: "string \<Rightarrow> json" where
  "message s = JObj [(''message'', JStr s)]"

text \<open>
  \<open>sent\<close> lists every \<^verbatim>\<open>res.status(..).json(..)\<close> the middleware executes, in order;
  the client sees the first. \<open>next_called\<close> tells whether the handler behind it runs,
  with \<open>req_user\<close> as \<^verbatim>\<open>req.user\<close>.
\<close>

record protect_result =
  sent :: "response list"
  next_called :: bool
  req_user :: "safe_user option"

definition protect ::
    "(string \<Rightarrow> string option) \<Rightarrow> user list \<Rightarrow> string option \<Rightarrow> protect_result" where
  "protect jwt_verify users authorization =
     (let no_token = res_status_json 401 (message ''Non autorise, aucun token'');
          invalid = res_status_json 401 (message ''Non autorise, token invalide'')
      in case authorization of
           None \<Rightarrow> \<lparr>sent = [no_token], next_called = False, req_user = None\<rparr>
         | Some h \<Rightarrow>
             if h \<noteq> [] \<and> take 6 h = ''Bearer''
             then
               (let token = index (split_on CHR 0x20 h) 1;
                    after = (if falsy token then [no_token] else [])
                in case verify jwt_verify token of
                     None \<Rightarrow> \<lparr>sent = invalid # after, next_called = False, req_user = None\<rparr>
                   | Some decoded_id \<Rightarrow>
                       \<lparr>sent = after, next_called = True,
                        req_user = map_option select_minus_password
                                     (User_findById decoded_id users)\<rparr>)
             else \<lparr>sent = [no_token], next_called = False, req_user = None\<rparr>)"

text \<open>
  routes/favoriteRoutes.js: each route runs \<^verbatim>\<open>protect\<close>, then its handler when
  \<^verbatim>\<open>next()\<close> was called. The result lists the responses written, and the collection.
\<close>

datatype favorites_request =
    PostFavorite add_body
  | GetFavorites
  | DeleteFavorite string

definition favoriteRoutes ::
    "(string \<Rightarrow> string option) \<Rightarrow> user list \<Rightarrow> env \<Rightarrow> string option \<Rightarrow> favorites_request
       \<Rightarrow> favorite list \<Rightarrow> response list \<times> favorite list" where
  "favoriteRoutes jwt_verify users e authorization r db =
     (let p = protect jwt_verify users authorization
      in if next_called p
         then (case r of
                 PostFavorite b \<Rightarrow>
                   (case addFavorite e (req_user p) b db of (x, db') \<Rightarrow> (sent p @ [x], db'))
               | GetFavorites \<Rightarrow> (sent p @ [getMyFavorites (req_user p) db], db)
               | DeleteFavorite i \<Rightarrow>
                   (case deleteFavorite (req_user p) i db of (x, db') \<Rightarrow> (sent p @ [x], db')))
         else (sent p, db))"

section \<open>The analysis service (services/nlpService.js)\<close>

text \<open>
  The analysis engine is outside the repository. A call either answers with data or fails
  with an axios error, of which the service reads \<^verbatim>\<open>code\<close>, \<^verbatim>\<open>response.status\<close>,
  \<^verbatim>\<open>response.data.detail\<close> and \<^verbatim>\<open>message\<close>. The answer of \<^verbatim>\<open>/analyze/find_dupes\<close> is
  an object with an optional \<^verbatim>\<open>count\<close> and an optional array \<^verbatim>\<open>results\<close> of product
  objects, other answers are JSON objects passed through unread.
\<close>

record axios_error =
  err_code :: "string option"
  err_status :: "nat option"
  err_detail :: "string option"
  err_message :: string

record form_data =
  form_field :: string
  form_buffer :: string
  form_filename :: string
  form_contentType :: string

record dupes_answer =
  d_count :: "real option"
  d_results :: "(string \<times> json) list list option"

record upstream =
  find_dupes_api :: "json \<Rightarrow> axios_error + dupes_answer"
  review_api :: "json \<Rightarrow> axios_error + json"
  scan_image_api :: "form_data \<Rightarrow> axios_error + json"
  quality_api :: "json \<Rightarrow> axios_error + json"

text \<open>What a handler does besides answering, in order: store operations and upstream calls.\<close>

datatype event =
    Store string
  | PostFindDupes json
  | PostReview json
  | PostScanImage form_data
  | PostQuality json

definition json_opt_str :: "string option \<Rightarrow> json" where
  "json_opt_str v = (case v of None \<Rightarrow> JNull | Some s \<Rightarrow> JStr s)"

definition findDupes_payload ::
    "string \<Rightarrow> string option \<Rightarrow> string option \<Rightarrow> real option \<Rightarrow> string option \<Rightarrow> json" where
  "findDupes_payload ingr brand type price' cat = JObj
     [(''ingredients'', JStr ingr),
      (''brand_name'', json_opt_str brand),
      (''target_product_type'', json_opt_str type),
      (''price'', JNum (or_num price' 100)),
      (''category'', JStr (case cat of None \<Rightarrow> ''All'' | Some c \<Rightarrow> c))]"

text \<open>
  The service functions return the data (\<open>Inr\<close>) or throw an Error with a message
  (\<open>Inl\<close>). The service's \<^verbatim>\<open>scanImage\<close> is \<open>nlp_scanImage\<close> here, the controller's
  keeps the name.
\<close>

definition findDupes ::
    "upstream \<Rightarrow> string \<Rightarrow> string option \<Rightarrow> string option \<Rightarrow> real option \<Rightarrow> string option
       \<Rightarrow> (string + dupes_answer) \<times> event list" where
  "findDupes up ingr brand type price' cat =
     (let payload = findDupes_payload ingr brand type price' cat
      in (case find_dupes_api up payload of
            Inr data \<Rightarrow> Inr data
          | Inl error \<Rightarrow>
              if err_code error = Some ''ECONNREFUSED''
              then Inl (''Le service d'analyse IA n'est pas disponible. '' @
                        ''Verifiez que le serveur Python est en cours d'execution.'')
              else if err_status error = Some 503
              then Inl (''Le service d'analyse est en cours de chargement, '' @
                        ''veuillez reessayer dans quelques instants.'')
              else Inl (''Erreur d'analyse: '' @ or_str (err_detail error) (err_message error)),
          [PostFindDupes payload]))"

definition review_payload :: "string \<Rightarrow> string option \<Rightarrow> json" where
  "review_payload text' skinType = JObj
     [(''text'', JStr text'),
      (''skin_type'', JStr (case skinType of None \<Rightarrow> ''All'' | Some s \<Rightarrow> s))]"

definition analyzeReview :: "upstream \<Rightarrow> string \<Rightarrow> string option \<Rightarrow> json \<times> event list" where
  "analyzeReview up text' skinType =
     (let payload = review_payload text' skinType
      in (case review_api up payload of
            Inr data \<Rightarrow> data
          | Inl error \<Rightarrow>
              JObj [(''sentiment'', JStr ''Indisponible''),
                    (''confidence'', JNum 0),
                    (''error'', JStr (err_message error))],
          [PostReview payload]))"

definition scan_form :: "string \<Rightarrow> string option \<Rightarrow> string \<Rightarrow> form_data" where
  "scan_form fileBuffer fileName originalname =
     \<lparr>form_field = ''file'', form_buffer = fileBuffer,
      form_filename = or_str fileName (or_str (Some originalname) ''image.jpg''),
      form_contentType = ''image/jpeg''\<rparr>"

definition nlp_scanImage ::
    "upstream \<Rightarrow> string \<Rightarrow> string option \<Rightarrow> string \<Rightarrow> (string + json) \<times> event list" where
  "nlp_scanImage up fileBuffer fileName originalname =
     (let form = scan_form fileBuffer fileName originalname
      in (case scan_image_api up form of
            Inr data \<Rightarrow> Inr data
          | Inl error \<Rightarrow>
              if \<not> falsy (err_detail error) then Inl (opt_str (err_detail error))
              else if err_code error = Some ''ECONNREFUSED'' then Inl ''Service OCR non disponible''
              else Inl (''Erreur de traitement d'image: '' @ err_message error),
          [PostScanImage form]))"

definition analyzeQuality :: "upstream \<Rightarrow> json \<Rightarrow> (string + json) \<times> event list" where
  "analyzeQuality up data =
     (case quality_api up data of
        Inr answer \<Rightarrow> (Inr answer, [PostQuality data])
      | Inl error \<Rightarrow> (Inl (err_message error), [PostQuality data]))"

section \<open>The analysis controller (controllers/analysisController.js)\<close>

text \<open>
  A handler yields its response, the collection afterwards and the events it caused.
  \<^verbatim>\<open>req.userId\<close> is a parameter of the handlers that read it.
\<close>

definition success_message :: "bool \<Rightarrow> string \<Rightarrow> json" where
  "success_message ok s = JObj [(''success'', JBool ok), (''message'', JStr s)]"

text \<open>
  \<^verbatim>\<open>req.file\<close> of multer's memory storage; its \<^verbatim>\<open>size\<close> is \<open>file_size\<close>.
\<close>

record upload_file =
  file_size :: nat
  buffer :: string
  filename :: "string option"
  originalname :: string

definition scanImage :: "upstream \<Rightarrow> upload_file option \<Rightarrow> response \<times> event list" where
  "scanImage up file =
     (case file of
        None \<Rightarrow> (res_status_json 400 (success_message False ''Aucune image fournie.''), [])
      | Some f \<Rightarrow>
          if file_size f > 10 * 1024 * 1024
          then (res_status_json 400
                  (success_message False ''L'image est trop volumineuse (max 10MB)''), [])
          else (case nlp_scanImage up (buffer f) (filename f) (originalname f) of
                  (Inr result, evs) \<Rightarrow>
                    (res_json (JObj [(''success'', JBool True), (''data'', result)]), evs)
                | (Inl error_message, evs) \<Rightarrow>
                    (res_status_json 500
                       (JObj [(''success'', JBool False),
                              (''message'', JStr error_message),
                              (''suggestion'', JStr ''Essayez une image plus nette'')]), evs)))"

record quality_body =
  q_product_name :: "string option"
  q_brand_name :: "string option"
  q_ingredients :: "string option"

definition present :: "string \<Rightarrow> string option \<Rightarrow> (string \<times> json) list" where
  "present k v = (case v of None \<Rightarrow> [] | Some s \<Rightarrow> [(k, JStr s)])"

definition getQualityAnalysis :: "upstream \<Rightarrow> quality_body \<Rightarrow> response \<times> event list" where
  "getQualityAnalysis up b =
     (if falsy (q_product_name b)
      then (res_status_json 400
              (success_message False ''Le nom du produit est requis pour trouver sa note.''), [])
      else (case analyzeQuality up
                   (JObj (present ''product_name'' (q_product_name b) @
                          present ''brand_name'' (q_brand_name b) @
                          present ''ingredients'' (q_ingredients b))) of
              (Inr result, evs) \<Rightarrow>
                (res_status_json 200 (JObj [(''success'', JBool True), (''data'', result)]), evs)
            | (Inl error_message, evs) \<Rightarrow>
                (res_status_json 500
                   (success_message False ''Erreur lors de la recuperation de la note.''), evs)))"

record dupes_body =
  db_ingredients :: "string option"
  db_brand :: "string option"
  db_type :: "string option"
  db_price :: "real option"
  db_category :: "string option"

text \<open>\<^verbatim>\<open>{...p, isFavorite: v}\<close>: the property keeps its place when \<^verbatim>\<open>p\<close> has it already.\<close>

fun set_property :: "string \<Rightarrow> json \<Rightarrow> (string \<times> json) list \<Rightarrow> (string \<times> json) list" where
  "set_property k v [] = [(k, v)]"
| "set_property k v ((k', v') # kvs) =
     (if k' = k then (k, v) # kvs else (k', v') # set_property k v kvs)"

definition mark_favorite :: "string list \<Rightarrow> (string \<times> json) list \<Rightarrow> (string \<times> json) list" where
  "mark_favorite favIds p =
     set_property ''isFavorite''
       (JBool (case map_of p ''product_id'' of
                 Some (JStr i) \<Rightarrow> i \<in> set favIds
               | _ \<Rightarrow> False)) p"

definition rejects_ingredients :: "string option \<Rightarrow> bool" where
  "rejects_ingredients ingr \<longleftrightarrow> falsy ingr \<or> length (trim (opt_str ingr)) < 5"

definition getDupes ::
    "upstream \<Rightarrow> string option \<Rightarrow> dupes_body \<Rightarrow> favorite list \<Rightarrow> response \<times> event list" where
  "getDupes up req_userId b db =
     (if rejects_ingredients (db_ingredients b)
      then (res_status_json 400
              (success_message False ''Ingredients requis pour trouver des dupes.''), [])
      else (case findDupes up (opt_str (db_ingredients b)) (db_brand b) (db_type b)
                   (db_price b) (db_category b) of
              (Inl error_message, evs) \<Rightarrow>
                (res_status_json 500 (success_message False error_message), evs)
            | (Inr results, evs) \<Rightarrow>
                (let sync = (\<not> falsy req_userId \<and> d_results results \<noteq> None);
                     favIds = map productId (filter (\<lambda>f. userId f = opt_str req_userId) db);
                     results' = (if sync then map_option (map (mark_favorite favIds)) (d_results results)
                                 else d_results results)
                 in (res_status_json 200
                       (JObj [(''success'', JBool True),
                              (''count'', JNum (or_num (d_count results) 0)),
                              (''data'', JArr (case results' of
                                                None \<Rightarrow> []
                                              | Some ps \<Rightarrow> map JObj ps))]),
                     evs @ (if sync then [Store ''find''] else [])))))"

record sentiment_body =
  s_text :: "string option"
  s_skinType :: "string option"

definition getSentiment :: "upstream \<Rightarrow> sentiment_body \<Rightarrow> response \<times> event list" where
  "getSentiment up b =
     (if falsy (s_text b) then (res_status_json 400 (message ''Texte requis''), [])
      else (case analyzeReview up (opt_str (s_text b)) (s_skinType b) of
              (analysis, evs) \<Rightarrow>
                (res_status_json 200 (JObj [(''success'', JBool True), (''data'', analysis)]),
                 evs)))"

record fav_body =
  fb_productId :: "string option"
  fb_productName :: "string option"
  fb_brandName :: "string option"
  fb_price :: "real option"
  fb_ingredients :: "string option"
  fb_similarity :: "real option"

definition addToFavorites ::
    "env \<Rightarrow> string option \<Rightarrow> fav_body \<Rightarrow> favorite list
       \<Rightarrow> response \<times> favorite list \<times> event list" where
  "addToFavorites e req_userId b db =
     (if falsy req_userId then (res_status_json 401 (message ''Connectez-vous''), db, [])
      else (case findOne (\<lambda>f. userId f = opt_str req_userId \<and>
                               Some (productId f) = fb_productId b) db of
              Some existing \<Rightarrow>
                (res_status_json 200
                   (JObj [(''message'', JStr ''Deja favori''), (''alreadyExists'', JBool True)]),
                 db, [Store ''findOne''])
            | None \<Rightarrow>
                (let fav = Favorite_new e
                       \<lparr>a_userId = opt_str req_userId,
                        a_productId = fb_productId b,
                        a_productName = fb_productName b,
                        a_brandName = fb_brandName b,
                        a_price = or_num (fb_price b) 0,
                        a_ingredients = fb_ingredients b,
                        a_category = None,
                        a_similarity = fb_similarity b,
                        a_addedAt = Some (t_new e),
                        a_source = ''dupe_finder''\<rparr>
                 in case Favorite_save fav db of
                      Inr db' \<Rightarrow>
                        (res_status_json 201
                           (JObj [(''success'', JBool True),
                                  (''message'', JStr ''Ajoute aux favoris''),
                                  (''data'', favorite_json fav)]),
                         db', [Store ''findOne'', Store ''save''])
                    | Inl err \<Rightarrow>
                        (res_status_json 500 (success_message False ''Erreur favoris''),
                         db, [Store ''findOne'', Store ''save'']))))"

text \<open>\<^verbatim>\<open>findOneAndDelete\<close> removes the first document that matches, if there is one.\<close>

fun findOneAndDelete :: "(favorite \<Rightarrow> bool) \<Rightarrow> favorite list \<Rightarrow> favorite list" where
  "findOneAndDelete p [] = []"
| "findOneAndDelete p (f # fs) = (if p f then fs else f # findOneAndDelete p fs)"

definition removeFromFavorites ::
    "string option \<Rightarrow> string \<Rightarrow> favorite list \<Rightarrow> response \<times> favorite list \<times> event list" where
  "removeFromFavorites req_userId pid db =
     (if falsy req_userId then (res_status_json 401 (message ''Non autorise''), db, [])
      else (res_status_json 200 (success_message True ''Retire des favoris''),
            findOneAndDelete (\<lambda>f. userId f = opt_str req_userId \<and> productId f = pid) db,
            [Store ''findOneAndDelete'']))"

definition getFavorites ::
    "string option \<Rightarrow> favorite list \<Rightarrow> response \<times> favorite list \<times> event list" where
  "getFavorites req_userId db =
     (if falsy req_userId then (res_status_json 401 (message ''Connectez-vous''), db, [])
      else (res_status_json 200
              (JObj [(''success'', JBool True),
                     (''data'', JArr (map favorite_json
                        (sort_desc addedAt (filter (\<lambda>f. userId f = opt_str req_userId) db))))]),
            db, [Store ''find'']))"

section \<open>The analysis router behind \<^verbatim>\<open>/api/analysis\<close>\<close>

text \<open>
  The routes of the router file, each with the part of the request its handler reads; for
  \<^verbatim>\<open>/scan\<close> that is the file part of the multipart body, sent under the field
  \<^verbatim>\<open>file\<close>. No route but \<^verbatim>\<open>/scan\<close> has a middleware, and the application installs only
  \<^verbatim>\<open>cors()\<close> and \<^verbatim>\<open>express.json()\<close>: nothing assigns \<^verbatim>\<open>req.userId\<close>, whatever the
  request carries, so every handler reads it as undefined.

  The route \<^verbatim>\<open>/scan\<close> runs \<^verbatim>\<open>upload.single('file')\<close> before its handler, with memory
  storage and \<^verbatim>\<open>limits: { fileSize: 10 * 1024 * 1024 }\<close>. A file within the limit becomes
  \<^verbatim>\<open>req.file\<close>. A larger file makes the middleware abort the upload with the error
  \<^verbatim>\<open>LIMIT_FILE_SIZE\<close> (``File too large'') and pass it on instead of calling the handler.
  The application has no error middleware, so the default error handler of the framework
  answers: with status 500, the error carrying no status of its own. Its body is an HTML
  page, not JSON, and is left out.
\<close>

datatype multer_error = LIMIT_FILE_SIZE

definition upload_single :: "upload_file option \<Rightarrow> multer_error + upload_file option" where
  "upload_single part =
     (case part of
        None \<Rightarrow> Inr None
      | Some f \<Rightarrow> if file_size f > 10 * 1024 * 1024 then Inl LIMIT_FILE_SIZE else Inr (Some f))"

definition default_error_handler :: "multer_error \<Rightarrow> response" where
  "default_error_handler err = \<lparr>status = 500, body = JNull\<rparr>"

datatype analysis_request =
    PostDupes dupes_body
  | PostSentiment sentiment_body
  | PostScan "upload_file option"
  | PostQuality quality_body
  | PostFavorites fav_body
  | GetAnalysisFavorites
  | DeleteFavorites string
  | GetTest

record http_headers =
  authorization :: "string option"
  cookie :: "string option"

definition analysisRoute ::
    "env \<Rightarrow> upstream \<Rightarrow> http_headers \<Rightarrow> analysis_request \<Rightarrow> favorite list
       \<Rightarrow> response \<times> favorite list \<times> event list" where
  "analysisRoute e up headers r db =
     (let req_userId = None
      in case r of
           PostDupes b \<Rightarrow> (case getDupes up req_userId b db of (x, evs) \<Rightarrow> (x, db, evs))
         | PostSentiment b \<Rightarrow> (case getSentiment up b of (x, evs) \<Rightarrow> (x, db, evs))
         | PostScan part \<Rightarrow>
             (case upload_single part of
                Inl err \<Rightarrow> (default_error_handler err, db, [])
              | Inr file \<Rightarrow> (case scanImage up file of (x, evs) \<Rightarrow> (x, db, evs)))
         | PostQuality b \<Rightarrow> (case getQualityAnalysis up b of (x, evs) \<Rightarrow> (x, db, evs))
         | PostFavorites b \<Rightarrow> addToFavorites e req_userId b db
         | GetAnalysisFavorites \<Rightarrow> getFavorites req_userId db
         | DeleteFavorites pid \<Rightarrow> removeFromFavorites req_userId pid db
         | GetTest \<Rightarrow>
             (res_json (JObj [(''success'', JBool True), (''message'', JStr ''API Analysis OK'')]),
              db, []))"

section \<open>Sample data\<close>

text \<open>Two users, and a favorite of the first as \<^verbatim>\<open>addFavorite\<close> stores it.\<close>

definition alice :: safe_user where
  "alice = \<lparr>uid = ''u1'', uname = ''Alice'', uemail = ''alice@example.org''\<rparr>"

definition bob :: safe_user where
  "bob = \<lparr>uid = ''u2'', uname = ''Bob'', uemail = ''bob@example.org''\<rparr>"

definition env1 :: env where
  "env1 = \<lparr>fresh_oid = ''650000000000000000000001'', fresh_pid = ''g1'', t_new = 100, t_save = 101\<rparr>"

definition env2 :: env where
  "env2 = \<lparr>fresh_oid = ''650000000000000000000002'', fresh_pid = ''g2'', t_new = 200, t_save = 201\<rparr>"

definition env3 :: env where
  "env3 = \<lparr>fresh_oid = ''650000000000000000000003'', fresh_pid = ''g3'', t_new = 300, t_save = 301\<rparr>"

definition cream_body :: add_body where
  "cream_body =
     \<lparr>product_name = Some ''Cream'', brand_name = Some ''Brand'', b_price = Some 20,
      b_ingredients = Some ''Aqua, Glycerin'', b_category = None, b_similarity = Some (1/2),
      product_id = Some ''p1''\<rparr>"

definition cream :: favorite where
  "cream = Favorite_new env1 (addFavorite_args env1 alice cream_body)"

definition lotion_body :: add_body where
  "lotion_body =
     \<lparr>product_name = Some ''Lotion'', brand_name = Some ''Brand'', b_price = Some 12,
      b_ingredients = None, b_category = Some ''Body'', b_similarity = None,
      product_id = Some ''p1''\<rparr>"

definition cream_fav_body :: fav_body where
  "cream_fav_body =
     \<lparr>fb_productId = Some ''p1'', fb_productName = Some ''Cream'', fb_brandName = Some ''Brand'',
      fb_price = Some 20, fb_ingredients = None, fb_similarity = None\<rparr>"

text \<open>
  Two favorites of the first user whose saves completed in the opposite order of their
  construction, and three favorites added one after the other.
\<close>

definition slow :: favorite where
  "slow = Favorite_new \<lparr>fresh_oid = ''650000000000000000000004'', fresh_pid = ''g4'', t_new = 100, t_save = 102\<rparr>
            (addFavorite_args env1 alice (cream_body\<lparr>product_id := Some ''p4''\<rparr>))"

definition quick :: favorite where
  "quick = Favorite_new \<lparr>fresh_oid = ''650000000000000000000005'', fresh_pid = ''g5'', t_new = 101, t_save = 101\<rparr>
             (addFavorite_args env1 alice (lotion_body\<lparr>product_id := Some ''p5''\<rparr>))"

definition second :: favorite where
  "second = Favorite_new env2 (addFavorite_args env2 alice (lotion_body\<lparr>product_id := Some ''p2''\<rparr>))"

definition third :: favorite where
  "third = Favorite_new env3 (addFavorite_args env3 alice (cream_body\<lparr>product_id := None\<rparr>))"

text \<open>
  A verifier that accepts one token, issued to the first user, and a user collection from
  which that user's account has been deleted.
\<close>

definition sample_verify :: "string \<Rightarrow> string option" where
  "sample_verify t = (if t = ''tok-u1'' then Some ''u1'' else None)"

definition remaining_users :: "user list" where
  "remaining_users =
     [\<lparr>user_id = ''u2'', user_name = ''Bob'', user_email = ''bob@example.org'',
       user_password = ''$2a$10$hash''\<rparr>]"

text \<open>An analysis engine that refuses every connection.\<close>

definition refused :: axios_error where
  "refused = \<lparr>err_code = Some ''ECONNREFUSED'', err_status = None, err_detail = None,
              err_message = ''connect ECONNREFUSED 127.0.0.1:8000''\<rparr>"

definition down :: upstream where
  "down = \<lparr>find_dupes_api = (\<lambda>p. Inl refused), review_api = (\<lambda>p. Inl refused),
           scan_image_api = (\<lambda>p. Inl refused), quality_api = (\<lambda>p. Inl refused)\<rparr>"




definition dupes_of :: "string \<Rightarrow> dupes_body" where
  "dupes_of ingr = \<lparr>db_ingredients = Some ingr, db_brand = None, db_type = None,
                    db_price = None, db_category = None\<rparr>"


text \<open>
  Two calls of the first user in flight at once. The first pair adds a product that is new
  to the collection under the key p9; the second pair adds under that key a product whose
  name the stored favorite has already.
\<close>

definition serum_body :: add_body where
  "serum_body =
     \<lparr>product_name = Some ''Serum'', brand_name = Some ''Brand'', b_price = Some 30,
      b_ingredients = None, b_category = None, b_similarity = None,
      product_id = Some ''p9''\<rparr>"

definition call_a :: add_call where
  "call_a = \<lparr>c_env = env2, c_user = Some alice, c_body = serum_body\<rparr>"

definition call_b :: add_call where
  "call_b = \<lparr>c_env = env3, c_user = Some alice, c_body = serum_body\<rparr>"

definition call_c :: add_call where
  "call_c = \<lparr>c_env = env2, c_user = Some alice,
             c_body = cream_body\<lparr>product_id := Some ''p9''\<rparr>\<rparr>"

definition call_d :: add_call where
  "call_d = \<lparr>c_env = env3, c_user = Some alice,
             c_body = cream_body\<lparr>product_id := Some ''p9''\<rparr>\<rparr>"

section \<open>Evaluating the sample data\<close>

lemmas sample_defs = alice_def bob_def env1_def env2_def env3_def cream_body_def cream_def
  lotion_body_def cream_fav_body_def slow_def quick_def second_def third_def
  serum_body_def call_a_def call_b_def call_c_def call_d_def
  Favorite_new_def addFavorite_args_def or_str_def or_num_def opt_str_def trim_def js_whitespace_def

section \<open>Adding a favorite that is already there\<close>

lemma findOne_None_iff: "findOne p db = None \<longleftrightarrow> \<not> (\<exists>f\<in>set db. p f)"
  by (auto simp: findOne_def find_None_iff)

lemma findOne_Some_ex: "\<exists>f\<in>set db. p f \<Longrightarrow> \<exists>g. findOne p db = Some g"
  by (cases "findOne p db") (auto simp: findOne_None_iff)

lemma addFavorite_name_match:
  assumes "\<exists>f\<in>set db. userId f = uid u \<and> Some (productName f) = map_option trim (product_name b)"
  shows "addFavorite e (Some u) b db =
        (res_status_json 400 (msg ''Ce produit est deja dans vos favoris !''), db)"
proof -
  obtain g where
    "findOne (\<lambda>f. userId f = uid u \<and> Some (productName f) = map_option trim (product_name b)) db = Some g"
    using findOne_Some_ex [OF assms] ..
  then show ?thesis
    by (simp add: addFavorite_def addFavorite_check_def)
qed

lemma addFavorite_duplicate_key:
  assumes "\<not> (\<exists>f\<in>set db. userId f = uid u \<and> Some (productName f) = map_option trim (product_name b))"
    and "Favorite_save (Favorite_new e (addFavorite_args e u b)) db = Inl DuplicateKey"
  shows "addFavorite e (Some u) b db =
      (res_status_json 400 (msg ''Produit deja en favoris''), db)"
proof -
  have "findOne (\<lambda>f. userId f = uid u \<and> Some (productName f) = map_option trim (product_name b)) db = None"
    using assms(1) by (simp only: findOne_None_iff not_False_eq_True)
  then have "addFavorite_check (Some u) b db = Inr ()"
    by (simp add: addFavorite_check_def)
  moreover have "addFavorite_write e (Some u) b db =
      (res_status_json 400 (msg ''Produit deja en favoris''), db)"
    using assms(2) by (simp add: addFavorite_write_def error_code_def)
  ultimately show ?thesis
    by (simp add: addFavorite_def)
qed

lemma addToFavorites_key_match:
  assumes "\<not> falsy req_userId"
    and "\<exists>f\<in>set db. userId f = opt_str req_userId \<and> Some (productId f) = fb_productId fb"
  shows "addToFavorites e req_userId fb db =
        (res_status_json 200
           (JObj [(''message'', JStr ''Deja favori''), (''alreadyExists'', JBool True)]),
         db, [Store ''findOne''])"
proof -
  obtain g where
    "findOne (\<lambda>f. userId f = opt_str req_userId \<and> Some (productId f) = fb_productId fb) db = Some g"
    using findOne_Some_ex [OF assms(2)] ..
  with assms(1) show ?thesis
    unfolding addToFavorites_def by simp
qed

text \<open>
  Claim C1, as stated, fails on the protected route: Alice has the favorite ``Cream''
  (product id p1) stored and adds ``Cream'' again. The answer is status 400 and carries no
  \<^verbatim>\<open>alreadyExists\<close> flag. Adding ``Lotion'' under the same product id p1 passes the
  pre-check by name, hits the unique index at write time, and is answered 400 as well.
\<close>

theorem C1_counterexample:
  "status (fst (addFavorite env2 (Some alice) cream_body [cream])) = 400 \<and>
   json_field ''alreadyExists'' (body (fst (addFavorite env2 (Some alice) cream_body [cream]))) = None \<and>
   status (fst (addFavorite env2 (Some alice) lotion_body [cream])) = 400"
  by (simp add: addFavorite_def addFavorite_check_def addFavorite_write_def findOne_def
      Favorite_save_def schema_valid_def key_taken_def error_code_def
      res_status_json_def msg_def json_field_def sample_defs)

text \<open>
  Claim C1, amended. On the protected route an add request by an authenticated owner whose
  product name, trimmed, is that of a stored favorite of that owner is answered with status 400 and
  the message that the product is already among the favorites, and nothing is stored; a
  duplicate-key error of the store at write time is answered with status 400 and a message
  of the same kind, and nothing is stored. The handler of the analysis router, given an
  owner id, answers a match on the product id with status 200 and
  \<^verbatim>\<open>alreadyExists: true\<close>, and stores nothing.
\<close>

theorem C1_existing_favorite_is_refused:
  "((\<exists>f\<in>set db. userId f = uid u \<and> Some (productName f) = map_option trim (product_name b)) \<longrightarrow>
      addFavorite e (Some u) b db =
        (res_status_json 400 (msg ''Ce produit est deja dans vos favoris !''), db)) \<and>
   (\<not> (\<exists>f\<in>set db. userId f = uid u \<and> Some (productName f) = map_option trim (product_name b)) \<and>
    Favorite_save (Favorite_new e (addFavorite_args e u b)) db = Inl DuplicateKey \<longrightarrow>
      addFavorite e (Some u) b db =
        (res_status_json 400 (msg ''Produit deja en favoris''), db)) \<and>
   (\<not> falsy req_userId \<and>
    (\<exists>f\<in>set db. userId f = opt_str req_userId \<and> Some (productId f) = fb_productId fb) \<longrightarrow>
      addToFavorites e' req_userId fb db =
        (res_status_json 200
           (JObj [(''message'', JStr ''Deja favori''), (''alreadyExists'', JBool True)]),
         db, [Store ''findOne'']))"
proof (intro conjI impI)
  assume "\<exists>f\<in>set db. userId f = uid u \<and> Some (productName f) = map_option trim (product_name b)"
  then show "addFavorite e (Some u) b db =
      (res_status_json 400 (msg ''Ce produit est deja dans vos favoris !''), db)"
    by (rule addFavorite_name_match)
next
  assume h: "\<not> (\<exists>f\<in>set db. userId f = uid u \<and> Some (productName f) = map_option trim (product_name b)) \<and>
    Favorite_save (Favorite_new e (addFavorite_args e u b)) db = Inl DuplicateKey"
  show "addFavorite e (Some u) b db =
      (res_status_json 400 (msg ''Produit deja en favoris''), db)"
    by (rule addFavorite_duplicate_key [OF conjunct1 [OF h] conjunct2 [OF h]])
next
  assume h: "\<not> falsy req_userId \<and>
    (\<exists>f\<in>set db. userId f = opt_str req_userId \<and> Some (productId f) = fb_productId fb)"
  show "addToFavorites e' req_userId fb db =
        (res_status_json 200
           (JObj [(''message'', JStr ''Deja favori''), (''alreadyExists'', JBool True)]),
         db, [Store ''findOne''])"
    by (rule addToFavorites_key_match [OF conjunct1 [OF h] conjunct2 [OF h]])
qed

text \<open>The three cases of the amended claim C1 on the sample data.\<close>

theorem C1_witness:
  "(\<exists>f\<in>set [cream]. userId f = uid alice \<and> Some (productName f) = map_option trim (product_name cream_body)) \<and>
   addFavorite env2 (Some alice) cream_body [cream] =
     (res_status_json 400 (msg ''Ce produit est deja dans vos favoris !''), [cream]) \<and>
   (\<not> (\<exists>f\<in>set [cream]. userId f = uid alice \<and> Some (productName f) = map_option trim (product_name lotion_body)) \<and>
    Favorite_save (Favorite_new env2 (addFavorite_args env2 alice lotion_body)) [cream]
      = Inl DuplicateKey) \<and>
   addFavorite env2 (Some alice) lotion_body [cream] =
     (res_status_json 400 (msg ''Produit deja en favoris''), [cream]) \<and>
   (\<not> falsy (Some ''u1'') \<and>
    (\<exists>f\<in>set [cream]. userId f = opt_str (Some ''u1'') \<and>
       Some (productId f) = fb_productId cream_fav_body)) \<and>
   addToFavorites env2 (Some ''u1'') cream_fav_body [cream] =
     (res_status_json 200
        (JObj [(''message'', JStr ''Deja favori''), (''alreadyExists'', JBool True)]),
      [cream], [Store ''findOne''])"
proof -
  have a: "\<exists>f\<in>set [cream]. userId f = uid alice \<and> Some (productName f) = map_option trim (product_name cream_body)"
    by (simp add: sample_defs)
  have b: "\<not> (\<exists>f\<in>set [cream]. userId f = uid alice \<and> Some (productName f) = map_option trim (product_name lotion_body)) \<and>
      Favorite_save (Favorite_new env2 (addFavorite_args env2 alice lotion_body)) [cream]
        = Inl DuplicateKey"
    by (simp add: Favorite_save_def schema_valid_def key_taken_def sample_defs)
  have c: "\<not> falsy (Some ''u1'') \<and>
      (\<exists>f\<in>set [cream]. userId f = opt_str (Some ''u1'') \<and>
         Some (productId f) = fb_productId cream_fav_body)"
    by (simp add: falsy_def sample_defs)
  note t1 = C1_existing_favorite_is_refused
    [of "[cream]" alice cream_body env2 "Some ''u1''" cream_fav_body env2]
  note t2 = C1_existing_favorite_is_refused
    [of "[cream]" alice lotion_body env2 "Some ''u1''" cream_fav_body env2]
  have r1: "addFavorite env2 (Some alice) cream_body [cream] =
     (res_status_json 400 (msg ''Ce produit est deja dans vos favoris !''), [cream])"
    by (rule mp [OF conjunct1 [OF t1] a])
  have r2: "addFavorite env2 (Some alice) lotion_body [cream] =
     (res_status_json 400 (msg ''Produit deja en favoris''), [cream])"
    by (rule mp [OF conjunct1 [OF conjunct2 [OF t2]] b])
  have r3: "addToFavorites env2 (Some ''u1'') cream_fav_body [cream] =
     (res_status_json 200
        (JObj [(''message'', JStr ''Deja favori''), (''alreadyExists'', JBool True)]),
      [cream], [Store ''findOne''])"
    by (rule mp [OF conjunct2 [OF conjunct2 [OF t1]] c])
  show ?thesis
    by (intro conjI a r1 b r2 c r3)
qed

section \<open>Removal: absent, foreign and own favorites\<close>

lemma findById_None_iff:
  "findById i db = Inr None \<longleftrightarrow> is_ObjectId i \<and> i \<notin> oid ` set db"
  by (auto simp: findById_def find_None_iff)

lemma findById_Some_mem:
  "findById i db = Inr (Some f) \<Longrightarrow> f \<in> set db \<and> oid f = i \<and> is_ObjectId i"
  by (auto simp: findById_def find_Some_iff split: if_splits)

lemma is_ObjectId_samples:
  "is_ObjectId ''650000000000000000000001''"
  "is_ObjectId ''65000000000000000000000f''"
  "\<not> is_ObjectId ''zz''"
  by (simp_all add: is_ObjectId_def hex_digit_def)




section \<open>Removing twice\<close>

lemma findById_filtered:
  "is_ObjectId i \<Longrightarrow> findById i (filter (\<lambda>g. oid g \<noteq> i) db) = Inr None"
  by (auto simp: findById_None_iff)

lemma deleteFavorite_ok_id:
  assumes "status (fst (deleteFavorite (Some u) i db)) = 200"
  shows "is_ObjectId i"
  using assms
  by (cases "is_ObjectId i") (simp_all add: deleteFavorite_def findById_def res_status_json_def)

lemma deleteFavorite_ok_store:
  assumes "status (fst (deleteFavorite (Some u) i db)) = 200"
  shows "snd (deleteFavorite (Some u) i db) = filter (\<lambda>f. oid f \<noteq> i) db"
proof -
  have valid: "is_ObjectId i"
    by (rule deleteFavorite_ok_id [OF assms])
  show ?thesis
  proof (cases "find (\<lambda>f. oid f = i) db")
    case None
    with assms valid show ?thesis
      by (simp add: deleteFavorite_def findById_def res_status_json_def)
  next
    case (Some fav)
    with valid have "findById i db = Inr (Some fav)"
      by (simp add: findById_def)
    then have "oid fav = i"
      by (simp add: findById_Some_mem)
    with assms Some valid show ?thesis
      by (simp add: deleteFavorite_def findById_def res_status_json_def res_json_def
          deleteOne_def split: if_splits)
  qed
qed

lemma deleteFavorite_absent:
  "findById i db = Inr None \<Longrightarrow>
     deleteFavorite user i db = (res_status_json 404 (msg ''Favori non trouve''), db)"
  by (simp add: deleteFavorite_def)

lemma findOneAndDelete_unique:
  assumes "distinct (map k db)"
  shows "findOneAndDelete (\<lambda>f. k f = x) db = filter (\<lambda>f. k f \<noteq> x) db"
  using assms
proof (induction db)
  case Nil
  then show ?case by simp
next
  case (Cons f fs)
  show ?case
  proof (cases "k f = x")
    case True
    with Cons.prems have "\<forall>g\<in>set fs. k g \<noteq> x"
      by (auto simp: image_iff)
    then have "filter (\<lambda>f. k f \<noteq> x) fs = fs"
      by (simp add: filter_id_conv)
    with True show ?thesis by simp
  next
    case False
    with Cons show ?thesis by simp
  qed
qed

lemma findOneAndDelete_key:
  assumes "unique_index db"
  shows "findOneAndDelete (\<lambda>f. userId f = u \<and> productId f = pid) db =
         filter (\<lambda>f. \<not> (userId f = u \<and> productId f = pid)) db"
  using findOneAndDelete_unique [of "\<lambda>f. (userId f, productId f)" db "(u, pid)"] assms
  by (simp add: unique_index_def)

text \<open>
  Claim C4, as stated, fails on the protected route: Alice removes her favorite f1, which
  succeeds and empties the collection, and removes it again. The second call is answered
  with status 404.
\<close>

theorem C4_counterexample:
  "status (fst (deleteFavorite (Some alice) ''650000000000000000000001'' [cream])) = 200 \<and>
   snd (deleteFavorite (Some alice) ''650000000000000000000001'' [cream]) = [] \<and>
   status (fst (deleteFavorite (Some alice) ''650000000000000000000001''
                  (snd (deleteFavorite (Some alice) ''650000000000000000000001'' [cream])))) = 404"
  by (simp add: deleteFavorite_def findById_def is_ObjectId_samples deleteOne_def res_json_def
      res_status_json_def sample_defs)

text \<open>
  Claim C4, amended. On the protected route a remove that succeeded took away exactly the
  documents with that id, and a second remove of the same id is answered with status 404
  and leaves the collection, so every other record, as it is. The handler of the analysis
  router, given an owner id and a collection that respects the unique index, takes away
  exactly the owner's favorite with that product id; called a second time it answers 200
  again and leaves the collection as it is.
\<close>

theorem C4_second_remove:
  "(status (fst (deleteFavorite (Some u) i db)) = 200 \<longrightarrow>
      snd (deleteFavorite (Some u) i db) = filter (\<lambda>f. oid f \<noteq> i) db \<and>
      deleteFavorite (Some u) i (snd (deleteFavorite (Some u) i db)) =
        (res_status_json 404 (msg ''Favori non trouve''), snd (deleteFavorite (Some u) i db))) \<and>
   (\<not> falsy req_userId \<and> unique_index db \<longrightarrow>
      fst (snd (removeFromFavorites req_userId pid db)) =
        filter (\<lambda>f. \<not> (userId f = opt_str req_userId \<and> productId f = pid)) db \<and>
      status (fst (removeFromFavorites req_userId pid
                     (fst (snd (removeFromFavorites req_userId pid db))))) = 200 \<and>
      fst (snd (removeFromFavorites req_userId pid
                  (fst (snd (removeFromFavorites req_userId pid db))))) =
        fst (snd (removeFromFavorites req_userId pid db)))"
proof (intro conjI impI)
  assume ok: "status (fst (deleteFavorite (Some u) i db)) = 200"
  show s: "snd (deleteFavorite (Some u) i db) = filter (\<lambda>f. oid f \<noteq> i) db"
    by (rule deleteFavorite_ok_store [OF ok])
  show "deleteFavorite (Some u) i (snd (deleteFavorite (Some u) i db)) =
        (res_status_json 404 (msg ''Favori non trouve''), snd (deleteFavorite (Some u) i db))"
    unfolding s by (rule deleteFavorite_absent [OF findById_filtered [OF deleteFavorite_ok_id [OF ok]]])
next
  assume h: "\<not> falsy req_userId \<and> unique_index db"
  let ?p = "\<lambda>f. userId f = opt_str req_userId \<and> productId f = pid"
  have u: "findOneAndDelete ?p db = filter (\<lambda>f. \<not> ?p f) db"
    by (rule findOneAndDelete_key [OF conjunct2 [OF h]])
  have none: "findOneAndDelete ?p (filter (\<lambda>f. \<not> ?p f) db) = filter (\<lambda>f. \<not> ?p f) db"
    by (induction db) auto
  from h u show "fst (snd (removeFromFavorites req_userId pid db)) =
        filter (\<lambda>f. \<not> (userId f = opt_str req_userId \<and> productId f = pid)) db"
    by (simp add: removeFromFavorites_def)
  from h show "status (fst (removeFromFavorites req_userId pid
                     (fst (snd (removeFromFavorites req_userId pid db))))) = 200"
    by (simp add: removeFromFavorites_def res_status_json_def)
  from h u none show "fst (snd (removeFromFavorites req_userId pid
                  (fst (snd (removeFromFavorites req_userId pid db))))) =
        fst (snd (removeFromFavorites req_userId pid db))"
    by (simp add: removeFromFavorites_def)
qed

text \<open>The amended claim C4 on the sample data.\<close>

theorem C4_witness:
  "status (fst (deleteFavorite (Some alice) ''650000000000000000000001'' [cream])) = 200 \<and>
   deleteFavorite (Some alice) ''650000000000000000000001'' (snd (deleteFavorite (Some alice) ''650000000000000000000001'' [cream])) =
     (res_status_json 404 (msg ''Favori non trouve''),
      snd (deleteFavorite (Some alice) ''650000000000000000000001'' [cream])) \<and>
   (\<not> falsy (Some ''u1'') \<and> unique_index [cream]) \<and>
   status (fst (removeFromFavorites (Some ''u1'') ''p1''
                  (fst (snd (removeFromFavorites (Some ''u1'') ''p1'' [cream]))))) = 200"
proof -
  have a: "status (fst (deleteFavorite (Some alice) ''650000000000000000000001'' [cream])) = 200"
    by (simp add: deleteFavorite_def findById_def is_ObjectId_samples deleteOne_def res_json_def
        res_status_json_def sample_defs)
  have b: "\<not> falsy (Some ''u1'') \<and> unique_index [cream]"
    by (simp add: falsy_def unique_index_def)
  note t = C4_second_remove [of alice "''650000000000000000000001''" "[cream]" "Some ''u1''" "''p1''"]
  have r1: "deleteFavorite (Some alice) ''650000000000000000000001'' (snd (deleteFavorite (Some alice) ''650000000000000000000001'' [cream])) =
     (res_status_json 404 (msg ''Favori non trouve''),
      snd (deleteFavorite (Some alice) ''650000000000000000000001'' [cream]))"
    by (rule conjunct2 [OF mp [OF conjunct1 [OF t] a]])
  have r2: "status (fst (removeFromFavorites (Some ''u1'') ''p1''
                  (fst (snd (removeFromFavorites (Some ''u1'') ''p1'' [cream]))))) = 200"
    by (rule conjunct1 [OF conjunct2 [OF mp [OF conjunct2 [OF t] b]]])
  show ?thesis
    by (intro conjI a r1 b r2)
qed

section \<open>Listing the favorites of an owner\<close>

lemma mset_sort_desc: "mset (sort_desc k fs) = mset fs"
  by (simp add: sort_desc_def)

lemma set_sort_desc: "set (sort_desc k fs) = set fs"
  by (simp add: sort_desc_def)

lemma sorted_sort_desc: "sorted_wrt (\<lambda>f g. k g \<le> k f) (sort_desc k fs)"
proof -
  have "sorted (map (\<lambda>f. - int (k f)) (sort_desc k fs))"
    unfolding sort_desc_def by (rule sorted_sort_key)
  then show ?thesis
    by (simp add: sorted_map)
qed

text \<open>
  Claim C5, as stated, fails on the protected route: the list is sorted on \<open>createdAt\<close>,
  the stamp of the save, not on \<open>addedAt\<close>, the stamp of the construction. Of two
  favorites of Alice, the first was constructed at 100 and saved at 102, the second
  constructed and saved at 101. The list gives the first before the second, which is
  the ascending order of \<open>addedAt\<close>.
\<close>

theorem C5_counterexample:
  "getMyFavorites (Some alice) [slow, quick] = res_json (JArr (map favorite_json [slow, quick])) \<and>
   map addedAt [slow, quick] = [100, 101] \<and>
   map createdAt [slow, quick] = [102, 101] \<and>
   \<not> sorted_wrt (\<lambda>f g. addedAt g \<le> addedAt f) [slow, quick]"
  by (simp add: getMyFavorites_def sort_desc_def sample_defs)

text \<open>
  Claim C5, amended. For every owner the list of the protected route returns exactly
  that owner's favorites, ordered by \<open>createdAt\<close> descending, the most recently saved
  first: favorites saved at times T1, T2, T3 with T1 less than T2 less than T3 come in
  the order T3, T2, T1. Where the order of \<open>createdAt\<close> agrees with that of \<open>addedAt\<close>,
  the list is ordered by \<open>addedAt\<close> descending as well.
\<close>

theorem C5_list_by_createdAt:
  "getMyFavorites (Some u) db =
     res_json (JArr (map favorite_json (sort_desc createdAt (filter (\<lambda>f. userId f = uid u) db)))) \<and>
   mset (sort_desc createdAt (filter (\<lambda>f. userId f = uid u) db)) =
     mset (filter (\<lambda>f. userId f = uid u) db) \<and>
   sorted_wrt (\<lambda>f g. createdAt g \<le> createdAt f)
     (sort_desc createdAt (filter (\<lambda>f. userId f = uid u) db)) \<and>
   ((\<forall>f\<in>set db. \<forall>g\<in>set db. createdAt g \<le> createdAt f \<longrightarrow> addedAt g \<le> addedAt f) \<longrightarrow>
      sorted_wrt (\<lambda>f g. addedAt g \<le> addedAt f)
        (sort_desc createdAt (filter (\<lambda>f. userId f = uid u) db)))"
proof (intro conjI impI)
  show "getMyFavorites (Some u) db =
     res_json (JArr (map favorite_json (sort_desc createdAt (filter (\<lambda>f. userId f = uid u) db))))"
    by (simp add: getMyFavorites_def)
  show "mset (sort_desc createdAt (filter (\<lambda>f. userId f = uid u) db)) =
     mset (filter (\<lambda>f. userId f = uid u) db)"
    by (rule mset_sort_desc)
  show c: "sorted_wrt (\<lambda>f g. createdAt g \<le> createdAt f)
     (sort_desc createdAt (filter (\<lambda>f. userId f = uid u) db))"
    by (rule sorted_sort_desc)
  assume agree: "\<forall>f\<in>set db. \<forall>g\<in>set db. createdAt g \<le> createdAt f \<longrightarrow> addedAt g \<le> addedAt f"
  show "sorted_wrt (\<lambda>f g. addedAt g \<le> addedAt f)
        (sort_desc createdAt (filter (\<lambda>f. userId f = uid u) db))"
  proof (rule sorted_wrt_mono_rel [OF _ c])
    fix f g
    assume "f \<in> set (sort_desc createdAt (filter (\<lambda>f. userId f = uid u) db))"
      and "g \<in> set (sort_desc createdAt (filter (\<lambda>f. userId f = uid u) db))"
      and "createdAt g \<le> createdAt f"
    with agree show "addedAt g \<le> addedAt f"
      by (simp add: set_sort_desc)
  qed
qed

text \<open>
  The amended claim C5 on three favorites of Alice saved at 101, 201 and 301 and stored
  in another order.
\<close>

theorem C5_witness:
  "map addedAt [third, second, cream] = [300, 200, 100] \<and>
   getMyFavorites (Some alice) [cream, third, second] =
     res_json (JArr (map favorite_json [third, second, cream])) \<and>
   map createdAt [third, second, cream] = [301, 201, 101] \<and>
   sorted_wrt (\<lambda>f g. addedAt g \<le> addedAt f)
     (sort_desc createdAt (filter (\<lambda>f. userId f = uid alice) [cream, third, second]))"
proof -
  have a: "\<forall>f\<in>set [cream, third, second]. \<forall>g\<in>set [cream, third, second].
      createdAt g \<le> createdAt f \<longrightarrow> addedAt g \<le> addedAt f"
    by (simp add: sample_defs)
  have l: "sort_desc createdAt (filter (\<lambda>f. userId f = uid alice) [cream, third, second]) =
      [third, second, cream]"
    by (simp add: sort_desc_def sample_defs)
  note t = C5_list_by_createdAt [of alice "[cream, third, second]"]
  have r1: "getMyFavorites (Some alice) [cream, third, second] =
     res_json (JArr (map favorite_json [third, second, cream]))"
    using conjunct1 [OF t] unfolding l .
  have r2: "map createdAt [third, second, cream] = [301, 201, 101]"
    by (simp add: sample_defs)
  have r3: "sorted_wrt (\<lambda>f g. addedAt g \<le> addedAt f)
     (sort_desc createdAt (filter (\<lambda>f. userId f = uid alice) [cream, third, second]))"
    by (rule mp [OF conjunct2 [OF conjunct2 [OF conjunct2 [OF t]]] a])
  have r0: "map addedAt [third, second, cream] = [300, 200, 100]"
    by (simp add: sample_defs)
  show ?thesis
    by (intro conjI r0 r1 r2 r3)
qed

section \<open>The identity check\<close>

text \<open>
  What the middleware does right: without a bearer header it answers 401 and does not
  call the handler; when the token does not verify it answers 401 and does not call the
  handler; and when it calls the handler it has answered nothing itself, the token has
  verified, and \<^verbatim>\<open>req.user\<close> is the outcome of the user lookup with the password left out.
\<close>

lemma protect_no_bearer:
  "hdr = None \<or> take 6 (opt_str hdr) \<noteq> ''Bearer'' \<Longrightarrow>
     protect jwt_verify users hdr =
       \<lparr>sent = [res_status_json 401 (message ''Non autorise, aucun token'')],
        next_called = False, req_user = None\<rparr>"
  by (cases hdr) (auto simp: protect_def opt_str_def Let_def)

lemma protect_rejected:
  "verify jwt_verify (index (split_on CHR 0x20 h) 1) = None \<Longrightarrow>
     \<not> next_called (protect jwt_verify users (Some h)) \<and>
     map status (take 1 (sent (protect jwt_verify users (Some h)))) = [401]"
  by (simp add: protect_def Let_def res_status_json_def)

lemma protect_next_user:
  "next_called (protect jwt_verify users hdr) \<Longrightarrow>
     sent (protect jwt_verify users hdr) = [] \<and>
     (\<exists>h i. hdr = Some h \<and> verify jwt_verify (index (split_on CHR 0x20 h) 1) = Some i \<and>
        req_user (protect jwt_verify users hdr) =
          map_option select_minus_password (User_findById i users))"
  by (cases hdr)
     (auto simp: protect_def Let_def verify_def falsy_def split: if_splits option.splits)

text \<open>
  Claim C6 does not hold of the code where the principal no longer exists. The token of the
  first user verifies, the account of that user has been deleted: the lookup yields null,
  the middleware stores it as \<^verbatim>\<open>req.user\<close> and calls \<^verbatim>\<open>next()\<close> all the same. No 401 is
  sent, the handler runs without an identity, and the list and add handlers end in their
  \<^verbatim>\<open>catch\<close> with status 500.
\<close>

theorem C6_deleted_principal_reaches_handler:
  "protect sample_verify remaining_users (Some ''Bearer tok-u1'') =
     \<lparr>sent = [], next_called = True, req_user = None\<rparr> \<and>
   map status (fst (favoriteRoutes sample_verify remaining_users env1 (Some ''Bearer tok-u1'')
                      GetFavorites [cream])) = [500] \<and>
   map status (fst (favoriteRoutes sample_verify remaining_users env1 (Some ''Bearer tok-u1'')
                      (PostFavorite cream_body) [])) = [500]"
  by (simp add: favoriteRoutes_def protect_def Let_def index_def verify_def falsy_def
      sample_verify_def remaining_users_def User_findById_def
      getMyFavorites_def addFavorite_def addFavorite_check_def res_status_json_def)

section \<open>Sentiment analysis when the engine fails\<close>

text \<open>
  Claim C7, as stated, fails on the value of the result: with the engine refusing the
  connection, the request with text ``great product'' and skin type ``oily'' is answered with
  status 200, and the sentiment of the data is the string ``Indisponible'', not
  ``unavailable''; the data carries the message of the failure as a third field.
\<close>

theorem C7_counterexample:
  "getSentiment down \<lparr>s_text = Some ''great product'', s_skinType = Some ''oily''\<rparr> =
     (res_status_json 200
        (JObj [(''success'', JBool True),
               (''data'', JObj [(''sentiment'', JStr ''Indisponible''),
                                (''confidence'', JNum 0),
                                (''error'', JStr ''connect ECONNREFUSED 127.0.0.1:8000'')])]),
      [PostReview (review_payload ''great product'' (Some ''oily''))]) \<and>
   JStr ''Indisponible'' \<noteq> JStr ''unavailable''"
  by (simp add: getSentiment_def analyzeReview_def falsy_def opt_str_def down_def refused_def)

text \<open>
  Claim C7, amended. For every sentiment request with a text, when the call to the
  analysis engine fails, the operation makes that one call and answers with status 200,
  \<^verbatim>\<open>success: true\<close> and the degraded result of sentiment ``Indisponible'', confidence 0
  and the message of the failure as \<^verbatim>\<open>error\<close>; no error status is propagated.
\<close>

theorem C7_degraded_sentiment:
  "\<not> falsy (s_text b) \<and>
   review_api up (review_payload (opt_str (s_text b)) (s_skinType b)) = Inl error \<longrightarrow>
     getSentiment up b =
       (res_status_json 200
          (JObj [(''success'', JBool True),
                 (''data'', JObj [(''sentiment'', JStr ''Indisponible''),
                                  (''confidence'', JNum 0),
                                  (''error'', JStr (err_message error))])]),
        [PostReview (review_payload (opt_str (s_text b)) (s_skinType b))])"
  by (simp add: getSentiment_def analyzeReview_def)

text \<open>The amended claim C7 with the engine that refuses every connection.\<close>

theorem C7_witness:
  "(\<not> falsy (s_text \<lparr>s_text = Some ''great product'', s_skinType = Some ''oily''\<rparr>) \<and>
    review_api down (review_payload ''great product'' (Some ''oily'')) = Inl refused) \<and>
   status (fst (getSentiment down \<lparr>s_text = Some ''great product'', s_skinType = Some ''oily''\<rparr>))
     = 200"
proof -
  let ?b = "\<lparr>s_text = Some ''great product'', s_skinType = Some ''oily''\<rparr>"
  have a: "\<not> falsy (s_text ?b) \<and>
      review_api down (review_payload (opt_str (s_text ?b)) (s_skinType ?b)) = Inl refused"
    by (simp add: falsy_def down_def)
  have "getSentiment down ?b =
       (res_status_json 200
          (JObj [(''success'', JBool True),
                 (''data'', JObj [(''sentiment'', JStr ''Indisponible''),
                                  (''confidence'', JNum 0),
                                  (''error'', JStr (err_message refused))])]),
        [PostReview (review_payload (opt_str (s_text ?b)) (s_skinType ?b))])"
    by (rule mp [OF C7_degraded_sentiment [of ?b down refused] a])
  then have "status (fst (getSentiment down ?b)) = 200"
    by (simp add: res_status_json_def)
  with a show ?thesis
    by (simp add: opt_str_def)
qed


section \<open>Validation of the ingredients of a duplicate search\<close>

lemma getDupes_rejected:
  "rejects_ingredients (db_ingredients b) \<Longrightarrow>
     getDupes up req_userId b db =
       (res_status_json 400 (success_message False ''Ingredients requis pour trouver des dupes.''), [])"
  by (simp add: getDupes_def)

lemma getDupes_forwarded:
  assumes "\<not> rejects_ingredients (db_ingredients b)"
  shows "status (fst (getDupes up req_userId b db)) \<noteq> 400 \<and>
     take 1 (snd (getDupes up req_userId b db)) =
       [PostFindDupes (findDupes_payload (opt_str (db_ingredients b)) (db_brand b) (db_type b)
                         (db_price b) (db_category b))]"
proof (cases "find_dupes_api up (findDupes_payload (opt_str (db_ingredients b)) (db_brand b)
                (db_type b) (db_price b) (db_category b))")
  case (Inl error)
  with assms show ?thesis
    by (simp add: getDupes_def findDupes_def Let_def res_status_json_def)
next
  case (Inr data)
  with assms show ?thesis
    by (simp add: getDupes_def findDupes_def Let_def res_status_json_def)
qed

lemma rejects_ingredients_iff:
  "rejects_ingredients ingr \<longleftrightarrow> ingr = None \<or> length (trim (opt_str ingr)) < 5"
  by (cases ingr) (auto simp: rejects_ingredients_def falsy_def opt_str_def trim_def)

text \<open>
  Claim C8, as stated, fails for a text padded with white space: ``abcd'' followed by a
  space has 5 characters and is refused with status 400, without a call to the engine,
  because the length is taken after trimming.
\<close>

theorem C8_counterexample:
  "length ''abcd '' = 5 \<and>
   getDupes down None (dupes_of ''abcd '') [] =
     (res_status_json 400 (success_message False ''Ingredients requis pour trouver des dupes.''), [])"
  by (simp add: getDupes_def rejects_ingredients_def falsy_def opt_str_def dupes_of_def
      trim_def js_whitespace_def)

text \<open>
  Claim C8, amended. The duplicate search is refused with status 400 exactly when the
  ingredients text is missing or has fewer than 5 characters once the white space at its
  ends is trimmed; a refused request makes no call to the engine, and every other request
  starts with the call to \<^verbatim>\<open>/analyze/find_dupes\<close>, carrying the text as it was sent.
\<close>

theorem C8_validation_on_trimmed_length:
  "(status (fst (getDupes up req_userId b db)) = 400 \<longleftrightarrow>
      db_ingredients b = None \<or> length (trim (opt_str (db_ingredients b))) < 5) \<and>
   (db_ingredients b = None \<or> length (trim (opt_str (db_ingredients b))) < 5 \<longrightarrow>
      snd (getDupes up req_userId b db) = []) \<and>
   (\<not> (db_ingredients b = None \<or> length (trim (opt_str (db_ingredients b))) < 5) \<longrightarrow>
      take 1 (snd (getDupes up req_userId b db)) =
        [PostFindDupes (findDupes_payload (opt_str (db_ingredients b)) (db_brand b) (db_type b)
                          (db_price b) (db_category b))])"
proof (cases "rejects_ingredients (db_ingredients b)")
  case True
  from getDupes_rejected [OF True, of up req_userId db] True show ?thesis
    by (simp add: rejects_ingredients_iff res_status_json_def)
next
  case False
  from getDupes_forwarded [OF False, of up req_userId db] False show ?thesis
    by (auto simp: rejects_ingredients_iff)
qed

text \<open>
  The amended claim C8 on the two texts of the specification: ``abcd'' is refused before
  any call, ``abcde'' goes to the engine.
\<close>

theorem C8_witness:
  "(db_ingredients (dupes_of ''abcd'') = None \<or>
      length (trim (opt_str (db_ingredients (dupes_of ''abcd'')))) < 5) \<and>
   status (fst (getDupes down None (dupes_of ''abcd'') [])) = 400 \<and>
   snd (getDupes down None (dupes_of ''abcd'') []) = [] \<and>
   \<not> (db_ingredients (dupes_of ''abcde'') = None \<or>
      length (trim (opt_str (db_ingredients (dupes_of ''abcde'')))) < 5) \<and>
   status (fst (getDupes down None (dupes_of ''abcde'') [])) \<noteq> 400 \<and>
   take 1 (snd (getDupes down None (dupes_of ''abcde'') [])) =
     [PostFindDupes (findDupes_payload ''abcde'' None None None None)]"
proof -
  have a: "db_ingredients (dupes_of ''abcd'') = None \<or>
      length (trim (opt_str (db_ingredients (dupes_of ''abcd'')))) < 5"
    by (simp add: dupes_of_def opt_str_def trim_def js_whitespace_def)
  have b: "\<not> (db_ingredients (dupes_of ''abcde'') = None \<or>
      length (trim (opt_str (db_ingredients (dupes_of ''abcde'')))) < 5)"
    by (simp add: dupes_of_def opt_str_def trim_def js_whitespace_def)
  note t1 = C8_validation_on_trimmed_length [of down None "dupes_of ''abcd''" "[]"]
  note t2 = C8_validation_on_trimmed_length [of down None "dupes_of ''abcde''" "[]"]
  have r1: "status (fst (getDupes down None (dupes_of ''abcd'') [])) = 400"
    by (rule iffD2 [OF conjunct1 [OF t1] a])
  have r2: "snd (getDupes down None (dupes_of ''abcd'') []) = []"
    by (rule mp [OF conjunct1 [OF conjunct2 [OF t1]] a])
  have r3: "status (fst (getDupes down None (dupes_of ''abcde'') [])) \<noteq> 400"
    using iffD1 [OF conjunct1 [OF t2]] b by blast
  have "take 1 (snd (getDupes down None (dupes_of ''abcde'') [])) =
     [PostFindDupes (findDupes_payload (opt_str (db_ingredients (dupes_of ''abcde'')))
        (db_brand (dupes_of ''abcde'')) (db_type (dupes_of ''abcde''))
        (db_price (dupes_of ''abcde'')) (db_category (dupes_of ''abcde'')))]"
    by (rule mp [OF conjunct2 [OF conjunct2 [OF t2]] b])
  then have r4: "take 1 (snd (getDupes down None (dupes_of ''abcde'') [])) =
     [PostFindDupes (findDupes_payload ''abcde'' None None None None)]"
    by (simp add: dupes_of_def opt_str_def)
  show ?thesis
    by (intro conjI a r1 r2 b r3 r4)
qed

section \<open>The size limit of an image scan\<close>

text \<open>
  The handler tests the size of \<^verbatim>\<open>req.file\<close> against the same limit as the upload
  middleware before it, so on the route its own refusal, status 400, is never reached.
\<close>

lemma nlp_scanImage_events:
  "snd (nlp_scanImage up fileBuffer fileName original) =
     [PostScanImage (scan_form fileBuffer fileName original)]"
  by (simp add: nlp_scanImage_def Let_def)





section \<open>The favorites routes of the analysis router\<close>

text \<open>Given an owner id the three handlers do go to the store.\<close>

lemma analysis_favorites_with_owner:
  "\<not> falsy req_userId \<Longrightarrow>
     snd (snd (getFavorites req_userId db)) = [Store ''find''] \<and>
     snd (snd (removeFromFavorites req_userId pid db)) = [Store ''findOneAndDelete''] \<and>
     take 1 (snd (snd (addToFavorites e req_userId b db))) = [Store ''findOne'']"
  by (simp add: getFavorites_def removeFromFavorites_def addToFavorites_def Let_def
      split: option.splits sum.splits)

text \<open>
  Claim C10. Every request to the three favorites routes of the analysis router, whatever
  its headers and body, is answered with status 401: the handlers find no
  \<^verbatim>\<open>req.userId\<close>. The collection is left as it was and no store operation is made.
\<close>

theorem C10_analysis_favorites_always_401:
  "analysisRoute e up headers (PostFavorites b) db =
     (res_status_json 401 (message ''Connectez-vous''), db, []) \<and>
   analysisRoute e up headers GetAnalysisFavorites db =
     (res_status_json 401 (message ''Connectez-vous''), db, []) \<and>
   analysisRoute e up headers (DeleteFavorites pid) db =
     (res_status_json 401 (message ''Non autorise''), db, [])"
  by (simp add: analysisRoute_def addToFavorites_def getFavorites_def removeFromFavorites_def
      falsy_def)

section \<open>The unique index and two adds in flight\<close>

text \<open>Every handler that writes keeps the unique index.\<close>

lemma key_taken_iff: "key_taken u k db \<longleftrightarrow> (\<exists>f\<in>set db. userId f = u \<and> productId f = k)"
  by (simp add: key_taken_def list_ex_iff)

lemma unique_index_append:
  "unique_index db \<Longrightarrow> \<not> key_taken (userId f) (productId f) db \<Longrightarrow> unique_index (db @ [f])"
  by (auto simp: unique_index_def key_taken_iff)

lemma unique_index_filter: "unique_index db \<Longrightarrow> unique_index (filter p db)"
  by (simp add: unique_index_def distinct_map_filter)

lemma set_findOneAndDelete: "set (findOneAndDelete p db) \<subseteq> set db"
  by (induction db) auto

lemma unique_index_findOneAndDelete:
  "unique_index db \<Longrightarrow> unique_index (findOneAndDelete p db)"
proof (induction db)
  case Nil
  then show ?case by simp
next
  case (Cons f fs)
  from Cons.prems have "(userId f, productId f) \<notin> (\<lambda>g. (userId g, productId g)) ` set fs"
    and rest: "unique_index fs"
    by (simp_all add: unique_index_def)
  with set_findOneAndDelete [of p fs]
  have "(userId f, productId f) \<notin> (\<lambda>g. (userId g, productId g)) ` set (findOneAndDelete p fs)"
    by blast
  with Cons.IH [OF rest] rest show ?case
    by (simp add: unique_index_def)
qed

lemma unique_index_save:
  "unique_index db \<Longrightarrow> Favorite_save f db = Inr db' \<Longrightarrow> unique_index db'"
  by (auto simp: Favorite_save_def unique_index_append split: if_splits)

lemma distinct_map_at_most_one:
  "distinct (map h xs) \<Longrightarrow> length (filter (\<lambda>x. h x = y) xs) \<le> 1"
proof (induction xs)
  case Nil
  then show ?case by simp
next
  case (Cons x xs)
  show ?case
  proof (cases "h x = y")
    case True
    with Cons.prems have "\<forall>z\<in>set xs. h z \<noteq> y"
      by (auto simp: image_iff)
    then have "filter (\<lambda>x. h x = y) xs = []"
      by (simp add: filter_empty_conv)
    with True show ?thesis by simp
  next
    case False
    with Cons show ?thesis by simp
  qed
qed

lemma unique_index_at_most_one:
  assumes "unique_index db"
  shows "length (filter (\<lambda>f. userId f = u \<and> productId f = k) db) \<le> 1"
  using distinct_map_at_most_one [of "\<lambda>f. (userId f, productId f)" db "(u, k)"] assms
  by (simp add: unique_index_def)

lemma addFavorite_write_unique:
  "unique_index db \<Longrightarrow> unique_index (snd (addFavorite_write e user b db))"
  by (auto simp: addFavorite_write_def Let_def unique_index_save split: option.splits sum.splits)

lemma addFavorite_unique:
  "unique_index db \<Longrightarrow> unique_index (snd (addFavorite e user b db))"
  by (auto simp: addFavorite_def addFavorite_write_unique split: sum.splits)

lemma deleteFavorite_unique:
  "unique_index db \<Longrightarrow> unique_index (snd (deleteFavorite user i db))"
  by (auto simp: deleteFavorite_def deleteOne_def unique_index_filter
      split: option.splits sum.splits)

lemma addToFavorites_unique:
  "unique_index db \<Longrightarrow> unique_index (fst (snd (addToFavorites e req_userId b db)))"
  by (auto simp: addToFavorites_def Let_def unique_index_save split: option.splits sum.splits)

lemma removeFromFavorites_unique:
  "unique_index db \<Longrightarrow> unique_index (fst (snd (removeFromFavorites req_userId pid db)))"
  by (auto simp: removeFromFavorites_def unique_index_findOneAndDelete)

text \<open>A call that runs its two steps without another call in between is the handler.\<close>

lemma addFavorite_as_steps:
  "addFavorite_step e user b (addFavorite_step e user b (Checking, db)) =
     (Answered (fst (addFavorite e user b db)), snd (addFavorite e user b db))"
  by (simp add: addFavorite_step_def addFavorite_def split: sum.splits prod.splits)

text \<open>The steps of an add on a store where the key is fresh, and where it is taken.\<close>

lemma addFavorite_doc_key:
  assumes "product_id b = Some k" and "k \<noteq> []"
  shows "userId (Favorite_new e (addFavorite_args e u b)) = uid u \<and>
         productId (Favorite_new e (addFavorite_args e u b)) = k"
  using assms by (simp add: Favorite_new_def addFavorite_args_def or_str_def opt_str_def)

lemma addFavorite_check_pass:
  assumes "\<forall>f\<in>set db. userId f = uid u \<longrightarrow> Some (productName f) \<noteq> map_option trim (product_name b)"
  shows "addFavorite_check (Some u) b db = Inr ()"
proof -
  have "findOne (\<lambda>f. userId f = uid u \<and> Some (productName f) = map_option trim (product_name b)) db = None"
    using assms by (auto simp: findOne_None_iff)
  then show ?thesis
    by (simp add: addFavorite_check_def)
qed

lemma addFavorite_check_cases:
  "addFavorite_check (Some u) b db = Inr () \<or>
   addFavorite_check (Some u) b db =
     Inl (res_status_json 400 (msg ''Ce produit est deja dans vos favoris !''))"
  by (simp add: addFavorite_check_def split: option.splits)

lemma addFavorite_write_fresh:
  assumes "product_id b = Some k" and "k \<noteq> []"
    and "schema_valid (Favorite_new e (addFavorite_args e u b))"
    and "\<not> key_taken (uid u) k db"
  shows "addFavorite_write e (Some u) b db =
     (res_status_json 201 (favorite_json (Favorite_new e (addFavorite_args e u b))),
      db @ [Favorite_new e (addFavorite_args e u b)])"
  using assms addFavorite_doc_key [OF assms(1,2), of e u]
  by (simp add: addFavorite_write_def Favorite_save_def Let_def)

lemma addFavorite_write_taken:
  assumes "product_id b = Some k" and "k \<noteq> []"
    and "schema_valid (Favorite_new e (addFavorite_args e u b))"
    and "key_taken (uid u) k db"
  shows "addFavorite_write e (Some u) b db =
     (res_status_json 400 (msg ''Produit deja en favoris''), db)"
  using assms addFavorite_doc_key [OF assms(1,2), of e u]
  by (simp add: addFavorite_write_def Favorite_save_def Let_def error_code_def)

lemma schedules_cases:
  assumes "sched \<in> set schedules"
  obtains "sched = [CallA, CallA, CallB, CallB]"
    | "sched = [CallA, CallB, CallA, CallB]"
    | "sched = [CallA, CallB, CallB, CallA]"
    | "sched = [CallB, CallA, CallA, CallB]"
    | "sched = [CallB, CallA, CallB, CallA]"
    | "sched = [CallB, CallB, CallA, CallA]"
  using assms by (auto simp: schedules_def)

lemma race_outcome:
  assumes ua: "c_user ca = Some u" and ub: "c_user cb = Some u"
    and ka: "product_id (c_body ca) = Some k" and kb: "product_id (c_body cb) = Some k"
    and k: "k \<noteq> []"
    and va: "schema_valid (Favorite_new (c_env ca) (addFavorite_args (c_env ca) u (c_body ca)))"
    and vb: "schema_valid (Favorite_new (c_env cb) (addFavorite_args (c_env cb) u (c_body cb)))"
    and fresh: "\<not> key_taken (uid u) k db"
    and na: "\<forall>f\<in>set db. userId f = uid u \<longrightarrow> Some (productName f) \<noteq> map_option trim (product_name (c_body ca))"
    and nb: "\<forall>f\<in>set db. userId f = uid u \<longrightarrow> Some (productName f) \<noteq> map_option trim (product_name (c_body cb))"
    and sched: "sched \<in> set schedules"
  shows "(case race ca cb sched (Checking, Checking, db) of
           (sa, sb, db') \<Rightarrow>
             (answered sa = Some 201 \<and> answered sb = Some 400 \<and>
              db' = db @ [Favorite_new (c_env ca) (addFavorite_args (c_env ca) u (c_body ca))]) \<or>
             (answered sa = Some 400 \<and> answered sb = Some 201 \<and>
              db' = db @ [Favorite_new (c_env cb) (addFavorite_args (c_env cb) u (c_body cb))]))"
proof -
  let ?da = "Favorite_new (c_env ca) (addFavorite_args (c_env ca) u (c_body ca))"
  let ?db = "Favorite_new (c_env cb) (addFavorite_args (c_env cb) u (c_body cb))"
  have cA: "addFavorite_check (Some u) (c_body ca) db = Inr ()"
    by (rule addFavorite_check_pass [OF na])
  have cB: "addFavorite_check (Some u) (c_body cb) db = Inr ()"
    by (rule addFavorite_check_pass [OF nb])
  have wA: "addFavorite_write (c_env ca) (Some u) (c_body ca) db =
      (res_status_json 201 (favorite_json ?da), db @ [?da])"
    by (rule addFavorite_write_fresh [OF ka k va fresh])
  have wB: "addFavorite_write (c_env cb) (Some u) (c_body cb) db =
      (res_status_json 201 (favorite_json ?db), db @ [?db])"
    by (rule addFavorite_write_fresh [OF kb k vb fresh])
  have ta: "key_taken (uid u) k (db @ [?da])"
    using addFavorite_doc_key [OF ka k, of "c_env ca" u] by (simp add: key_taken_iff)
  have tb: "key_taken (uid u) k (db @ [?db])"
    using addFavorite_doc_key [OF kb k, of "c_env cb" u] by (simp add: key_taken_iff)
  have wA': "addFavorite_write (c_env ca) (Some u) (c_body ca) (db @ [?db]) =
      (res_status_json 400 (msg ''Produit deja en favoris''), db @ [?db])"
    by (rule addFavorite_write_taken [OF ka k va tb])
  have wB': "addFavorite_write (c_env cb) (Some u) (c_body cb) (db @ [?da]) =
      (res_status_json 400 (msg ''Produit deja en favoris''), db @ [?da])"
    by (rule addFavorite_write_taken [OF kb k vb ta])
  note facts = addFavorite_step_def answered_def res_status_json_def ua ub cA cB wA wB wA' wB'
  note cA' = addFavorite_check_cases [of u "c_body ca" "db @ [?db]"]
  note cB' = addFavorite_check_cases [of u "c_body cb" "db @ [?da]"]
  from sched show ?thesis
  proof (cases rule: schedules_cases)
    case 1
    with cB' show ?thesis by (elim disjE) (simp_all add: facts)
  next
    case 2
    then show ?thesis by (simp add: facts)
  next
    case 3
    then show ?thesis by (simp add: facts)
  next
    case 4
    then show ?thesis by (simp add: facts)
  next
    case 5
    then show ?thesis by (simp add: facts)
  next
    case 6
    with cA' show ?thesis by (elim disjE) (simp_all add: facts)
  qed
qed

text \<open>
  Claim C2, as stated, fails where the pre-check, which goes by the product name, and the
  index, which goes by the product id, disagree. Alice has ``Cream'' stored under the key
  p1; two calls of hers add ``Cream'' under the key p9 at the same time. Both calls are
  answered with status 400 by the pre-check, and no favorite with the key p9 is stored.
\<close>

theorem C2_counterexample:
  "race call_c call_d [CallA, CallB, CallA, CallB] (Checking, Checking, [cream]) =
     (Answered (res_status_json 400 (msg ''Ce produit est deja dans vos favoris !'')),
      Answered (res_status_json 400 (msg ''Ce produit est deja dans vos favoris !'')),
      [cream]) \<and>
   product_id (c_body call_c) = Some ''p9'' \<and> product_id (c_body call_d) = Some ''p9'' \<and>
   filter (\<lambda>f. userId f = ''u1'' \<and> productId f = ''p9'') [cream] = []"
  by (simp add: addFavorite_step_def addFavorite_check_def findOne_def sample_defs)

text \<open>
  Claim C2, amended. Every handler that writes keeps the unique index, under which an
  owner has at most one stored favorite per product key. When two add calls of
  one owner for one product key, both with data the schema accepts, are in flight at once
  on a store where that owner has no favorite with that key nor with the trimmed product
  name of either call, then in every interleaving of their store operations exactly one favorite
  with that key ends up stored, the one of the winning call, which is answered 201, and
  the losing call is answered 400 with the message that the product is already among the
  favorites: no duplicate, and never both calls refused.
\<close>

theorem C2_unique_key_and_race:
  "(unique_index db \<longrightarrow>
      unique_index (snd (addFavorite e user b db)) \<and>
      unique_index (snd (deleteFavorite user i db)) \<and>
      unique_index (fst (snd (addToFavorites e req_userId fb db))) \<and>
      unique_index (fst (snd (removeFromFavorites req_userId pid db))) \<and>
      (\<forall>w k'. length (filter (\<lambda>f. userId f = w \<and> productId f = k') db) \<le> 1)) \<and>
   (unique_index db \<and> c_user ca = Some u \<and> c_user cb = Some u \<and>
    product_id (c_body ca) = Some k \<and> product_id (c_body cb) = Some k \<and> k \<noteq> [] \<and>
    schema_valid (Favorite_new (c_env ca) (addFavorite_args (c_env ca) u (c_body ca))) \<and>
    schema_valid (Favorite_new (c_env cb) (addFavorite_args (c_env cb) u (c_body cb))) \<and>
    \<not> key_taken (uid u) k db \<and>
    (\<forall>f\<in>set db. userId f = uid u \<longrightarrow> Some (productName f) \<noteq> map_option trim (product_name (c_body ca))) \<and>
    (\<forall>f\<in>set db. userId f = uid u \<longrightarrow> Some (productName f) \<noteq> map_option trim (product_name (c_body cb))) \<longrightarrow>
      (\<forall>sched\<in>set schedules.
         case race ca cb sched (Checking, Checking, db) of
           (sa, sb, db') \<Rightarrow>
             unique_index db' \<and>
             length (filter (\<lambda>f. userId f = uid u \<and> productId f = k) db') = 1 \<and>
             ((answered sa = Some 201 \<and> answered sb = Some 400 \<and>
               db' = db @ [Favorite_new (c_env ca) (addFavorite_args (c_env ca) u (c_body ca))]) \<or>
              (answered sa = Some 400 \<and> answered sb = Some 201 \<and>
               db' = db @ [Favorite_new (c_env cb) (addFavorite_args (c_env cb) u (c_body cb))]))))"
proof (intro conjI impI ballI allI)
  assume inv: "unique_index db"
  show "unique_index (snd (addFavorite e user b db))"
    by (rule addFavorite_unique [OF inv])
  show "unique_index (snd (deleteFavorite user i db))"
    by (rule deleteFavorite_unique [OF inv])
  show "unique_index (fst (snd (addToFavorites e req_userId fb db)))"
    by (rule addToFavorites_unique [OF inv])
  show "unique_index (fst (snd (removeFromFavorites req_userId pid db)))"
    by (rule removeFromFavorites_unique [OF inv])
  show "length (filter (\<lambda>f. userId f = w \<and> productId f = k') db) \<le> 1" for w k'
    by (rule unique_index_at_most_one [OF inv])
next
  fix sched
  let ?da = "Favorite_new (c_env ca) (addFavorite_args (c_env ca) u (c_body ca))"
  let ?db = "Favorite_new (c_env cb) (addFavorite_args (c_env cb) u (c_body cb))"
  assume h: "unique_index db \<and> c_user ca = Some u \<and> c_user cb = Some u \<and>
    product_id (c_body ca) = Some k \<and> product_id (c_body cb) = Some k \<and> k \<noteq> [] \<and>
    schema_valid ?da \<and> schema_valid ?db \<and>
    \<not> key_taken (uid u) k db \<and>
    (\<forall>f\<in>set db. userId f = uid u \<longrightarrow> Some (productName f) \<noteq> map_option trim (product_name (c_body ca))) \<and>
    (\<forall>f\<in>set db. userId f = uid u \<longrightarrow> Some (productName f) \<noteq> map_option trim (product_name (c_body cb)))"
    and sched: "sched \<in> set schedules"
  from h have inv: "unique_index db" and ua: "c_user ca = Some u" and ub: "c_user cb = Some u"
    and ka: "product_id (c_body ca) = Some k" and kb: "product_id (c_body cb) = Some k"
    and k: "k \<noteq> []" and va: "schema_valid ?da" and vb: "schema_valid ?db"
    and fresh: "\<not> key_taken (uid u) k db"
    and na: "\<forall>f\<in>set db. userId f = uid u \<longrightarrow> Some (productName f) \<noteq> map_option trim (product_name (c_body ca))"
    and nb: "\<forall>f\<in>set db. userId f = uid u \<longrightarrow> Some (productName f) \<noteq> map_option trim (product_name (c_body cb))"
    by simp_all
  have none: "filter (\<lambda>f. userId f = uid u \<and> productId f = k) db = []"
    using fresh by (auto simp: key_taken_iff filter_empty_conv)
  have keyA: "userId ?da = uid u \<and> productId ?da = k"
    by (rule addFavorite_doc_key [OF ka k])
  have keyB: "userId ?db = uid u \<and> productId ?db = k"
    by (rule addFavorite_doc_key [OF kb k])
  have invA: "unique_index (db @ [?da])"
    using inv fresh keyA by (simp add: unique_index_append)
  have invB: "unique_index (db @ [?db])"
    using inv fresh keyB by (simp add: unique_index_append)
  have oneA: "length (filter (\<lambda>f. userId f = uid u \<and> productId f = k) (db @ [?da])) = 1"
    using none keyA by simp
  have oneB: "length (filter (\<lambda>f. userId f = uid u \<and> productId f = k) (db @ [?db])) = 1"
    using none keyB by simp
  from race_outcome [OF ua ub ka kb k va vb fresh na nb sched] invA invB oneA oneB
  show "case race ca cb sched (Checking, Checking, db) of
           (sa, sb, db') \<Rightarrow>
             unique_index db' \<and>
             length (filter (\<lambda>f. userId f = uid u \<and> productId f = k) db') = 1 \<and>
             ((answered sa = Some 201 \<and> answered sb = Some 400 \<and> db' = db @ [?da]) \<or>
              (answered sa = Some 400 \<and> answered sb = Some 201 \<and> db' = db @ [?db]))"
    by (auto split: prod.splits)
qed

text \<open>
  The amended claim C2 for two calls of Alice that add ``Serum'' under the key p9 while
  ``Cream'' is stored under p1, in the interleaving where the second call writes first.
\<close>

theorem C2_witness:
  "(unique_index [cream] \<and> c_user call_a = Some alice \<and> c_user call_b = Some alice \<and>
    product_id (c_body call_a) = Some ''p9'' \<and> product_id (c_body call_b) = Some ''p9'' \<and>
    ''p9'' \<noteq> [] \<and>
    schema_valid (Favorite_new (c_env call_a) (addFavorite_args (c_env call_a) alice (c_body call_a))) \<and>
    schema_valid (Favorite_new (c_env call_b) (addFavorite_args (c_env call_b) alice (c_body call_b))) \<and>
    \<not> key_taken (uid alice) ''p9'' [cream] \<and>
    Some (productName cream) \<noteq> map_option trim (product_name (c_body call_a)) \<and>
    Some (productName cream) \<noteq> map_option trim (product_name (c_body call_b))) \<and>
   [CallA, CallB, CallB, CallA] \<in> set schedules \<and>
   (case race call_a call_b [CallA, CallB, CallB, CallA] (Checking, Checking, [cream]) of
      (sa, sb, db') \<Rightarrow>
        unique_index db' \<and>
        length (filter (\<lambda>f. userId f = uid alice \<and> productId f = ''p9'') db') = 1 \<and>
        ((answered sa = Some 201 \<and> answered sb = Some 400 \<and>
          db' = [cream] @ [Favorite_new (c_env call_a)
                             (addFavorite_args (c_env call_a) alice (c_body call_a))]) \<or>
         (answered sa = Some 400 \<and> answered sb = Some 201 \<and>
          db' = [cream] @ [Favorite_new (c_env call_b)
                             (addFavorite_args (c_env call_b) alice (c_body call_b))]))) \<and>
   unique_index (snd (addFavorite env2 (Some alice) serum_body [cream]))"
proof -
  have h: "unique_index [cream] \<and> c_user call_a = Some alice \<and> c_user call_b = Some alice \<and>
    product_id (c_body call_a) = Some ''p9'' \<and> product_id (c_body call_b) = Some ''p9'' \<and>
    ''p9'' \<noteq> [] \<and>
    schema_valid (Favorite_new (c_env call_a) (addFavorite_args (c_env call_a) alice (c_body call_a))) \<and>
    schema_valid (Favorite_new (c_env call_b) (addFavorite_args (c_env call_b) alice (c_body call_b))) \<and>
    \<not> key_taken (uid alice) ''p9'' [cream] \<and>
    (\<forall>f\<in>set [cream]. userId f = uid alice \<longrightarrow>
       Some (productName f) \<noteq> map_option trim (product_name (c_body call_a))) \<and>
    (\<forall>f\<in>set [cream]. userId f = uid alice \<longrightarrow>
       Some (productName f) \<noteq> map_option trim (product_name (c_body call_b)))"
    by (simp add: unique_index_def schema_valid_def key_taken_def sample_defs)
  have m: "[CallA, CallB, CallB, CallA] \<in> set schedules"
    by (simp add: schedules_def)
  note t = C2_unique_key_and_race
    [where db = "[cream]" and e = env2 and user = "Some alice" and b = serum_body
       and i = "''650000000000000000000001''" and req_userId = "Some ''u1''" and fb = cream_fav_body
       and pid = "''p1''" and ca = call_a and cb = call_b and u = alice and k = "''p9''"]
  have r: "case race call_a call_b [CallA, CallB, CallB, CallA] (Checking, Checking, [cream]) of
      (sa, sb, db') \<Rightarrow>
        unique_index db' \<and>
        length (filter (\<lambda>f. userId f = uid alice \<and> productId f = ''p9'') db') = 1 \<and>
        ((answered sa = Some 201 \<and> answered sb = Some 400 \<and>
          db' = [cream] @ [Favorite_new (c_env call_a)
                             (addFavorite_args (c_env call_a) alice (c_body call_a))]) \<or>
         (answered sa = Some 400 \<and> answered sb = Some 201 \<and>
          db' = [cream] @ [Favorite_new (c_env call_b)
                             (addFavorite_args (c_env call_b) alice (c_body call_b))]))"
    by (rule bspec [OF mp [OF conjunct2 [OF t] h] m])
  have i: "unique_index (snd (addFavorite env2 (Some alice) serum_body [cream]))"
    by (rule conjunct1 [OF mp [OF conjunct1 [OF t] conjunct1 [OF h]]])
  have n: "Some (productName cream) \<noteq> map_option trim (product_name (c_body call_a)) \<and>
      Some (productName cream) \<noteq> map_option trim (product_name (c_body call_b))"
    by (simp add: sample_defs)
  from h n m r i show ?thesis
    by (simp only: simp_thms)
qed

end
